theory Spec2Isabelle
  imports Complex_Main
begin

section \<open>Python values, exceptions and outcomes\<close>

text \<open>
  The Flow module represents every backend response and every notification as the Python
  value that \<open>json.loads\<close> yields. A dict is an association list whose first binding of a
  key is the dict's entry (a parsed dict has each key once). JSON numbers are modelled as
  integers.
\<close>

datatype json =
    JNull
  | JBool bool
  | JNum int
  | JStr string
  | JArr "json list"
  | JObj "(string \<times> json) list"

text \<open>
  The exceptions the modelled code raises or lets through. \<open>SystemExit\<close> and
  \<open>KeyboardInterrupt\<close> derive from Python's \<open>BaseException\<close> only, so a clause
  \<open>except Exception\<close> does not catch them; every other constructor is a subclass of
  \<open>Exception\<close>. \<open>Exception\<close> carries the argument tuple of a plain \<open>Exception(...)\<close>,
  \<open>UserError\<close> stands for any further \<open>Exception\<close> subclass a handler may raise.
\<close>

datatype exn =
    KeyError json
  | TypeError
  | ValueError
  | AttributeError
  | Empty
  | FlowError json
  | FlowConnectionError string
  | FlowTimeoutError string
  | Exception "json list"
  | UserError string
  | SystemExit
  | KeyboardInterrupt

fun is_Exception :: "exn \<Rightarrow> bool" where
  "is_Exception SystemExit = False"
| "is_Exception KeyboardInterrupt = False"
| "is_Exception _ = True"

text \<open>
  What a call does: it returns a value, raises, or never returns because it waits on a
  lock or a queue that nothing will release or fill.
\<close>

datatype 'a outcome = Returns 'a | Raises exn | Blocks

subsection \<open>The Python operators the code applies to parsed JSON\<close>

fun py_truthy :: "json \<Rightarrow> bool" where
  "py_truthy JNull = False"
| "py_truthy (JBool b) = b"
| "py_truthy (JNum n) = (n \<noteq> 0)"
| "py_truthy (JStr s) = (s \<noteq> [])"
| "py_truthy (JArr xs) = (xs \<noteq> [])"
| "py_truthy (JObj kv) = (kv \<noteq> [])"

fun substring_in :: "string \<Rightarrow> string \<Rightarrow> bool" where
  "substring_in p [] = (p = [])"
| "substring_in p (c # cs) = (take (length p) (c # cs) = p \<or> substring_in p cs)"

text \<open>\<open>key in x\<close> for a string key: dict membership, substring, list membership.\<close>

fun py_in :: "string \<Rightarrow> json \<Rightarrow> exn + bool" where
  "py_in k (JObj kv) = Inr (map_of kv k \<noteq> None)"
| "py_in k (JStr s) = Inr (substring_in k s)"
| "py_in k (JArr xs) = Inr (List.member xs (JStr k))"
| "py_in k _ = Inl TypeError"

text \<open>\<open>x[key]\<close> for a string key.\<close>

fun py_getitem :: "json \<Rightarrow> string \<Rightarrow> exn + json" where
  "py_getitem (JObj kv) k =
     (case map_of kv k of None \<Rightarrow> Inl (KeyError (JStr k)) | Some v \<Rightarrow> Inr v)"
| "py_getitem _ k = Inl TypeError"

text \<open>\<open>len(x)\<close>.\<close>

fun py_len :: "json \<Rightarrow> exn + nat" where
  "py_len (JStr s) = Inr (length s)"
| "py_len (JArr xs) = Inr (length xs)"
| "py_len (JObj kv) = Inr (length kv)"
| "py_len _ = Inl TypeError"

text \<open>
  \<open>t in d\<close> and \<open>d[t]\<close> for a dict \<open>d\<close> with string keys: a list or dict \<open>t\<close> is
  unhashable, any other non-string value is hashable and equals no key.
\<close>

fun py_in_dict :: "json \<Rightarrow> (string \<rightharpoonup> 'h) \<Rightarrow> exn + bool" where
  "py_in_dict (JStr t) d = Inr (d t \<noteq> None)"
| "py_in_dict (JArr xs) d = Inl TypeError"
| "py_in_dict (JObj kv) d = Inl TypeError"
| "py_in_dict _ d = Inr False"

fun py_dict_get :: "(string \<rightharpoonup> 'h) \<Rightarrow> json \<Rightarrow> exn + 'h" where
  "py_dict_get d (JStr t) = (case d t of None \<Rightarrow> Inl (KeyError (JStr t)) | Some h \<Rightarrow> Inr h)"
| "py_dict_get d (JArr xs) = Inl TypeError"
| "py_dict_get d (JObj kv) = Inl TypeError"
| "py_dict_get d t = Inl (KeyError t)"

text \<open>
  \<open>Queue.get(block=True, timeout=t)\<close> of the standard library, as one thread sees it when
  no other thread puts an item meanwhile: without a timeout it waits for ever on an empty
  queue, a negative timeout is refused, and otherwise an empty queue raises \<open>Empty\<close> once
  the timeout has passed.
\<close>

definition Queue_get :: "rat option \<Rightarrow> 'a list \<Rightarrow> ('a \<times> 'a list) outcome" where
  "Queue_get timeout q =
     (case timeout of
        None \<Rightarrow> (case q of [] \<Rightarrow> Blocks | x # q' \<Rightarrow> Returns (x, q'))
      | Some t \<Rightarrow>
          if t < 0 then Raises ValueError
          else (case q of [] \<Rightarrow> Raises Empty | x # q' \<Rightarrow> Returns (x, q')))"

section \<open>The session\<close>

text \<open>
  A callback is a Python function of the notification type and its data. It acts on the
  application's own state \<open>'u\<close> and either returns or raises.
\<close>

type_synonym 'u callback = "json \<Rightarrow> json \<Rightarrow> 'u \<Rightarrow> exn option \<times> 'u"

datatype level = WARN | DEBUG

datatype log_record = Log level string json

text \<open>
  \<open>Flow._Session\<close>. \<open>callback_lock\<close> is \<open>True\<close> while the lock is held. \<open>LOG\<close> collects
  what the operations of this session write to the module's logger (the format strings are
  written without the quote marks around \<open>%s\<close>), and \<open>user\<close> is the application state
  the callbacks act on. The thread object is not part of the state: the flag
  \<open>listen_notifications\<close> says whether the loop is to go on.
\<close>

record 'u session =
  sid :: int
  callbacks :: "string \<rightharpoonup> 'u callback"
  notification_queue :: "json list"
  error_queue :: "string list"
  listen_notifications :: bool
  callback_lock :: bool
  LOG :: "log_record list"
  user :: 'u

definition MAX_QUEUE_SIZE :: nat where
  "MAX_QUEUE_SIZE = 128"

definition Session_init :: "int \<Rightarrow> 'u \<Rightarrow> 'u session" where
  "Session_init i u =
     \<lparr> sid = i, callbacks = Map.empty, notification_queue = [], error_queue = [],
       listen_notifications = False, callback_lock = False, LOG = [], user = u \<rparr>"

definition start_notification_loop :: "'u session \<Rightarrow> 'u session" where
  "start_notification_loop s = s\<lparr>listen_notifications := True\<rparr>"

definition unregister_callback :: "string \<Rightarrow> 'u session \<Rightarrow> unit outcome \<times> 'u session" where
  "unregister_callback notification_name s =
     (if callback_lock s then (Blocks, s)
      else
        let s1 = s\<lparr>callback_lock := True\<rparr> in
        (case callbacks s1 notification_name of
           None \<Rightarrow> (Raises (KeyError (JStr notification_name)), s1)
         | Some cb \<Rightarrow>
             (Returns (),
              s1\<lparr>callbacks := (callbacks s1)(notification_name := None),
                 callback_lock := False\<rparr>)))"

definition register_callback ::
  "string \<Rightarrow> 'u callback \<Rightarrow> 'u session \<Rightarrow> unit outcome \<times> 'u session" where
  "register_callback notification_name callback s =
     (if callback_lock s then (Blocks, s)
      else
        let s1 = s\<lparr>callback_lock := True\<rparr> in
        (Returns (),
         s1\<lparr>callbacks := (callbacks s1)(notification_name \<mapsto> callback),
            callback_lock := False\<rparr>))"

definition queue_error :: "string \<Rightarrow> 'u session \<Rightarrow> 'u session" where
  "queue_error error s =
     (let s1 =
        (if length (error_queue s) > MAX_QUEUE_SIZE then
           (case error_queue s of
              [] \<Rightarrow> s
            | ignored_error # rest \<Rightarrow>
                s\<lparr>error_queue := rest,
                  LOG := LOG s @
                    [Log WARN ''Error queue is full: ignoring error %s'' (JStr ignored_error)]\<rparr>)
         else s)
      in s1\<lparr>error_queue := error_queue s1 @ [error]\<rparr>)"

text \<open>
  The test of \<open>_queue_changes\<close>:
  \<open>change and "type" in change and change["type"] in self.callbacks\<close>.
\<close>

definition registered_change :: "json \<Rightarrow> (string \<rightharpoonup> 'h) \<Rightarrow> exn + bool" where
  "registered_change change cbs =
     (if \<not> py_truthy change then Inr False
      else
        (case py_in ''type'' change of
           Inl e \<Rightarrow> Inl e
         | Inr False \<Rightarrow> Inr False
         | Inr True \<Rightarrow>
             (case py_getitem change ''type'' of
                Inl e \<Rightarrow> Inl e
              | Inr t \<Rightarrow> py_in_dict t cbs)))"

text \<open>The body of the loop of \<open>_queue_changes\<close>, for one change.\<close>

definition queue_change :: "json \<Rightarrow> 'u session \<Rightarrow> unit outcome \<times> 'u session" where
  "queue_change change s =
     (case registered_change change (callbacks s) of
        Inl e \<Rightarrow> (Raises e, s)
      | Inr False \<Rightarrow> (Returns (), s)
      | Inr True \<Rightarrow>
          if length (notification_queue s) > MAX_QUEUE_SIZE then
            (case notification_queue s of
               [] \<Rightarrow> (Blocks, s)
             | notification # rest \<Rightarrow>
                 let s1 = s\<lparr>notification_queue := rest\<rparr> in
                 (case py_getitem notification ''data'' of
                    Inl e \<Rightarrow> (Raises e, s1)
                  | Inr d \<Rightarrow>
                      (Returns (),
                       s1\<lparr>LOG := LOG s1 @
                            [Log WARN ''Notification queue is full: ignoring notification %s'' d],
                          notification_queue := rest @ [change]\<rparr>)))
          else (Returns (), s\<lparr>notification_queue := notification_queue s @ [change]\<rparr>))"

fun for_changes :: "json list \<Rightarrow> 'u session \<Rightarrow> unit outcome \<times> 'u session" where
  "for_changes [] s = (Returns (), s)"
| "for_changes (change # changes) s =
     (case queue_change change s of
        (Returns u, s') \<Rightarrow> for_changes changes s'
      | (Raises e, s') \<Rightarrow> (Raises e, s')
      | (Blocks, s') \<Rightarrow> (Blocks, s'))"

definition queue_changes :: "json \<Rightarrow> 'u session \<Rightarrow> unit outcome \<times> 'u session" where
  "queue_changes changes s =
     for_changes (case changes of JArr xs \<Rightarrow> xs | _ \<Rightarrow> [changes]) s"

definition get_queued_error :: "rat option \<Rightarrow> 'u session \<Rightarrow> string outcome \<times> 'u session" where
  "get_queued_error timeout_secs s =
     (case Queue_get timeout_secs (error_queue s) of
        Returns (e, rest) \<Rightarrow> (Returns e, s\<lparr>error_queue := rest\<rparr>)
      | Raises x \<Rightarrow> (Raises x, s)
      | Blocks \<Rightarrow> (Blocks, s))"

text \<open>
  The inner \<open>try\<close> block of \<open>consume_notification\<close>, entered with the lock held: the
  result is the exception that leaves the block, if any. The message of the exception for
  a type without callback is written without the quote marks around \<open>%s\<close>.
\<close>

definition dispatch :: "json \<Rightarrow> 'u session \<Rightarrow> exn option \<times> 'u session" where
  "dispatch notification s =
     (case py_getitem notification ''type'' of
        Inl e \<Rightarrow> (Some e, s)
      | Inr t \<Rightarrow>
          (case py_in_dict t (callbacks s) of
             Inl e \<Rightarrow> (Some e, s)
           | Inr False \<Rightarrow>
               (Some (Exception [JStr ''Notification of type %s not supported.'', t]), s)
           | Inr True \<Rightarrow>
               (case py_dict_get (callbacks s) t of
                  Inl e \<Rightarrow> (Some e, s)
                | Inr cb \<Rightarrow>
                    (case py_getitem notification ''data'' of
                       Inl e \<Rightarrow> (Some e, s)
                     | Inr d \<Rightarrow>
                         (case cb t d (user s) of
                            (r, u') \<Rightarrow> (r, s\<lparr>user := u'\<rparr>))))))"

text \<open>
  \<open>consume_notification\<close>. \<open>str\<close> is Python's \<open>str\<close> on exceptions. The notification is
  taken from the queue before the lock is asked for; an exception of the \<open>Exception\<close>
  hierarchy is logged, any other leaves the call after the \<open>finally\<close> clause has released
  the lock.
\<close>

definition consume_notification ::
  "(exn \<Rightarrow> string) \<Rightarrow> rat option \<Rightarrow> 'u session \<Rightarrow> bool outcome \<times> 'u session" where
  "consume_notification str timeout_secs s =
     (case Queue_get timeout_secs (notification_queue s) of
        Raises x \<Rightarrow> (if x = Empty then (Returns False, s) else (Raises x, s))
      | Blocks \<Rightarrow> (Blocks, s)
      | Returns (notification, rest) \<Rightarrow>
          let s1 = s\<lparr>notification_queue := rest\<rparr> in
          if callback_lock s1 then (Blocks, s1)
          else
            (case dispatch notification (s1\<lparr>callback_lock := True\<rparr>) of
               (None, s2) \<Rightarrow> (Returns True, s2\<lparr>callback_lock := False\<rparr>)
             | (Some exception, s2) \<Rightarrow>
                 if is_Exception exception then
                   (Returns True,
                    s2\<lparr>LOG := LOG s2 @ [Log DEBUG ''Error: %s'' (JStr (str exception))],
                       callback_lock := False\<rparr>)
                 else (Raises exception, s2\<lparr>callback_lock := False\<rparr>)))"

text \<open>\<open>close\<close> clears the flag; it then waits for the thread to end.\<close>

definition close :: "'u session \<Rightarrow> 'u session" where
  "close s = s\<lparr>listen_notifications := False\<rparr>"

section \<open>The client\<close>

text \<open>
  What \<open>requests.post\<close> is called with: the pieces of the JSON request and the timeout.
\<close>

record request =
  req_method :: string
  req_params :: "(string \<times> json) list"
  req_token :: string
  req_port :: int
  req_timeout :: "rat option"

text \<open>
  What the HTTP exchange with the backend gives: a body that parses to a JSON value, a
  body that \<open>json.loads\<close> refuses, \<open>requests.ConnectionError\<close>, \<open>requests.Timeout\<close>, or
  any other exception, which \<open>_run\<close> does not catch.
\<close>

datatype http_result =
    Response json
  | BadBody
  | ConnectionError string
  | Timeout string
  | OtherFailure exn

text \<open>
  \<open>Flow\<close>. The sessions refer back to the client in the source; here the operations of a
  session that read the client take it as an argument.
\<close>

record 'u flow =
  api_timeout :: "rat option"
  token :: string
  port :: int
  sessions :: "int \<rightharpoonup> 'u session"
  current_session :: int
  loop_process_notifications :: bool

definition get_session_id :: "int \<Rightarrow> 'u flow \<Rightarrow> int" where
  "get_session_id i fl = (if i \<noteq> 0 then i else current_session fl)"


text \<open>\<open>a or b\<close> on timeouts: \<open>None\<close> and zero are falsy.\<close>

definition py_or :: "rat option \<Rightarrow> rat option \<Rightarrow> rat option" where
  "py_or a b = (case a of None \<Rightarrow> b | Some x \<Rightarrow> if x \<noteq> 0 then a else b)"

definition build_request :: "string \<Rightarrow> rat option \<Rightarrow> (string \<times> json) list \<Rightarrow> 'u flow \<Rightarrow> request" where
  "build_request method timeout params fl =
     \<lparr> req_method = method, req_params = params, req_token = token fl, req_port = port fl,
       req_timeout =
         py_or timeout (if method \<noteq> ''WaitForNotification'' then api_timeout fl else None) \<rparr>"

text \<open>Lines 458 to 471 of \<open>_run\<close>: what is made of the parsed response.\<close>

definition check_Error :: "(string \<times> json) list \<Rightarrow> json outcome" where
  "check_Error response_data =
     (let unwrap =
        (case map_of response_data ''result'' of
           Some r \<Rightarrow> Returns r
         | None \<Rightarrow> Returns (JObj response_data))
      in
      (case map_of response_data ''Error'' of
         None \<Rightarrow> unwrap
       | Some v \<Rightarrow>
           (case py_len v of
              Inl e \<Rightarrow> Raises e
            | Inr n \<Rightarrow> if n > 0 then Raises (FlowError v) else unwrap)))"

definition run_response :: "json \<Rightarrow> json outcome" where
  "run_response parsed =
     (case parsed of
        JObj response_data \<Rightarrow>
          (case map_of response_data ''error'' of
             None \<Rightarrow> check_Error response_data
           | Some v \<Rightarrow>
               (case py_len v of
                  Inl e \<Rightarrow> Raises e
                | Inr n \<Rightarrow> if n > 0 then Raises (FlowError v) else check_Error response_data))
      | _ \<Rightarrow> Raises AttributeError)"

text \<open>
  What \<open>_run\<close> makes of the HTTP exchange: the two exceptions of \<open>requests\<close> it
  translates, the ones it lets through, and the parsed response.
\<close>

definition http_outcome :: "http_result \<Rightarrow> json outcome" where
  "http_outcome r =
     (case r of
        ConnectionError requests_err \<Rightarrow> Raises (FlowConnectionError requests_err)
      | Timeout requests_err \<Rightarrow> Raises (FlowTimeoutError requests_err)
      | OtherFailure e \<Rightarrow> Raises e
      | BadBody \<Rightarrow> Raises ValueError
      | Response parsed \<Rightarrow> run_response parsed)"

text \<open>
  \<open>_run\<close>, with the HTTP exchange as the function \<open>post\<close> of the request. The debug
  logging of the request and of the response is left out.
\<close>

definition run ::
  "string \<Rightarrow> rat option \<Rightarrow> (string \<times> json) list \<Rightarrow> 'u flow \<Rightarrow> (request \<Rightarrow> http_result)
     \<Rightarrow> json outcome" where
  "run method timeout params fl post = http_outcome (post (build_request method timeout params fl))"

definition wait_for_notification ::
  "int \<Rightarrow> rat option \<Rightarrow> 'u flow \<Rightarrow> (request \<Rightarrow> http_result) \<Rightarrow> json outcome" where
  "wait_for_notification i timeout fl post =
     run ''WaitForNotification'' timeout [(''SessionID'', JNum (get_session_id i fl))] fl post"

text \<open>\<open>self.sessions[sid].op(...)\<close>: a missing session is a \<open>KeyError\<close>.\<close>

definition on_session ::
  "int \<Rightarrow> ('u session \<Rightarrow> 'a outcome \<times> 'u session) \<Rightarrow> 'u flow \<Rightarrow> 'a outcome \<times> 'u flow" where
  "on_session k op fl =
     (case sessions fl k of
        None \<Rightarrow> (Raises (KeyError (JNum k)), fl)
      | Some s \<Rightarrow> (case op s of (r, s') \<Rightarrow> (r, fl\<lparr>sessions := (sessions fl)(k \<mapsto> s')\<rparr>)))"

definition Flow_register_callback ::
  "string \<Rightarrow> 'u callback \<Rightarrow> int \<Rightarrow> 'u flow \<Rightarrow> unit outcome \<times> 'u flow" where
  "Flow_register_callback notification_name callback i fl =
     on_session (get_session_id i fl) (register_callback notification_name callback) fl"

definition Flow_unregister_callback ::
  "string \<Rightarrow> int \<Rightarrow> 'u flow \<Rightarrow> unit outcome \<times> 'u flow" where
  "Flow_unregister_callback notification_name i fl =
     on_session (get_session_id i fl) (unregister_callback notification_name) fl"

definition process_one_notification ::
  "(exn \<Rightarrow> string) \<Rightarrow> rat option \<Rightarrow> int \<Rightarrow> 'u flow \<Rightarrow> bool outcome \<times> 'u flow" where
  "process_one_notification str timeout_secs i fl =
     on_session (get_session_id i fl) (consume_notification str timeout_secs) fl"

definition get_notification_error ::
  "rat option \<Rightarrow> int \<Rightarrow> 'u flow \<Rightarrow> string option outcome \<times> 'u flow" where
  "get_notification_error timeout_secs i fl =
     (let k = get_session_id i fl in
      (case sessions fl k of
         None \<Rightarrow> (Returns None, fl)
       | Some s \<Rightarrow>
           (case get_queued_error timeout_secs s of
              (Returns e, s') \<Rightarrow> (Returns (Some e), fl\<lparr>sessions := (sessions fl)(k \<mapsto> s')\<rparr>)
            | (Raises x, s') \<Rightarrow>
                (if x = Empty then (Returns None, fl) else (Raises x, fl))
            | (Blocks, s') \<Rightarrow> (Blocks, fl))))"

section \<open>The poller\<close>

text \<open>
  One turn of the loop of \<open>_notification_loop\<close> meets the backend twice: the HTTP exchange
  of the wait call, and \<open>flowappglue.poll()\<close>, which is \<open>None\<close> while the process lives and
  its exit code afterwards.
\<close>

record backend_step =
  wait_post :: "request \<Rightarrow> http_result"
  glue_poll :: "int option"

text \<open>
  How the thread stands after the backend has answered a finite number of wait calls:
  the flag was found cleared, the loop was left because the backend has exited, an
  exception ended the thread, the thread waits for the lock for ever, or the next wait
  call is out and unanswered.
\<close>

datatype loop_result = Stopped | Broke | Died exn | Stuck | Waiting

fun notification_loop ::
  "(exn \<Rightarrow> string) \<Rightarrow> 'u flow \<Rightarrow> backend_step list \<Rightarrow> 'u session \<Rightarrow> loop_result \<times> 'u session"
where
  "notification_loop str fl [] s =
     (if listen_notifications s then (Waiting, s) else (Stopped, s))"
| "notification_loop str fl (b # bs) s =
     (if \<not> listen_notifications s then (Stopped, s)
      else
        (case wait_for_notification (sid s) None fl (wait_post b) of
           Raises flow_err \<Rightarrow>
             if is_Exception flow_err then
               (if glue_poll b \<noteq> None then (Broke, s)
                else notification_loop str fl bs (queue_error (str flow_err) s))
             else (Died flow_err, s)
         | Blocks \<Rightarrow> (Waiting, s)
         | Returns changes \<Rightarrow>
             if callback_lock s then (Stuck, s)
             else
               (case queue_changes changes (s\<lparr>callback_lock := True\<rparr>) of
                  (Returns u, s') \<Rightarrow> notification_loop str fl bs (s'\<lparr>callback_lock := False\<rparr>)
                | (Raises e, s') \<Rightarrow> (Died e, s')
                | (Blocks, s') \<Rightarrow> (Stuck, s'))))"

text \<open>The thread of the session stored under \<open>k\<close>, run against the backend's answers.\<close>

definition notification_thread ::
  "(exn \<Rightarrow> string) \<Rightarrow> backend_step list \<Rightarrow> int \<Rightarrow> 'u flow \<Rightarrow> loop_result \<times> 'u flow" where
  "notification_thread str bs k fl =
     (case sessions fl k of
        None \<Rightarrow> (Died (KeyError (JNum k)), fl)
      | Some s \<Rightarrow>
          (case notification_loop str fl bs s of
             (r, s') \<Rightarrow> (r, fl\<lparr>sessions := (sessions fl)(k \<mapsto> s')\<rparr>)))"

section \<open>Sample states\<close>

text \<open>A client with two sessions, the one the backend numbered 0 and the current one.\<close>

definition two_sessions :: "json list flow" where
  "two_sessions =
     \<lparr> api_timeout = None, token = ''secret'', port = 4000,
       sessions = [0 \<mapsto> Session_init 0 [], 7 \<mapsto> Session_init 7 []],
       current_session = 7, loop_process_notifications = False \<rparr>"

text \<open>A notification of type \<open>message\<close> as the backend sends it.\<close>

definition message_event :: "string \<Rightarrow> json" where
  "message_event d = JObj [(''type'', JStr ''message''), (''data'', JStr d)]"

text \<open>A turn of the poller in which the backend, alive, answers the wait call.\<close>

definition answers :: "json \<Rightarrow> backend_step" where
  "answers changes =
     \<lparr> wait_post = (\<lambda>r. Response (JObj [(''result'', changes)])), glue_poll = None \<rparr>"

text \<open>A started session with one queued notification and no callback.\<close>

definition waiting_session :: "json list session" where
  "waiting_session =
     (start_notification_loop (Session_init 7 []))\<lparr>notification_queue := [message_event ''a'']\<rparr>"

text \<open>A notification of type \<open>org\<close>.\<close>

definition org_event :: "string \<Rightarrow> json" where
  "org_event d = JObj [(''type'', JStr ''org''), (''data'', JStr d)]"

text \<open>
  A turn of the poller in which the connection to the backend fails; \<open>exit_code\<close> is what
  \<open>poll()\<close> then gives.
\<close>

definition fails :: "string \<Rightarrow> int option \<Rightarrow> backend_step" where
  "fails requests_err exit_code =
     \<lparr> wait_post = (\<lambda>r. ConnectionError requests_err), glue_poll = exit_code \<rparr>"

text \<open>Two callbacks: one appends the data to the application's list, the other also raises.\<close>

definition record_data :: "json list callback" where
  "record_data t d u = (None, u @ [d])"

definition raise_error :: "json list callback" where
  "raise_error t d u = (Some (UserError ''callback failed''), u @ [d])"

text \<open>
  A started session with two queued notifications, the callback of the first of which
  raises, and a client whose current session it is.
\<close>

definition raising_session :: "json list session" where
  "raising_session =
     (start_notification_loop (Session_init 7 []))
       \<lparr>callbacks := [''message'' \<mapsto> raise_error, ''org'' \<mapsto> record_data],
        notification_queue := [message_event ''a'', org_event ''b'']\<rparr>"

definition raising_client :: "json list flow" where
  "raising_client = two_sessions\<lparr>sessions := (sessions two_sessions)(7 \<mapsto> raising_session)\<rparr>"

section \<open>Events and the drop-oldest queue, in the words of the specification\<close>

text \<open>
  An event of the data model is a dict with a string under \<open>type\<close>, its type tag, and a
  value under \<open>data\<close>, its payload. An event is deliverable when its type tag has a
  callback.
\<close>

fun type_tag :: "json \<Rightarrow> string option" where
  "type_tag (JObj kv) = (case map_of kv ''type'' of Some (JStr t) \<Rightarrow> Some t | _ \<Rightarrow> None)"
| "type_tag _ = None"

fun payload :: "json \<Rightarrow> json option" where
  "payload (JObj kv) = map_of kv ''data''"
| "payload _ = None"

definition deliverable :: "(string \<rightharpoonup> 'h) \<Rightarrow> json \<Rightarrow> bool" where
  "deliverable cbs e = (case type_tag e of None \<Rightarrow> False | Some t \<Rightarrow> cbs t \<noteq> None)"

text \<open>
  The queue after the check and the \<open>put\<close> that both \<open>_queue_error\<close> and
  \<open>_queue_changes\<close> make: the oldest item goes when the size exceeds the maximum.
\<close>

definition put_drop_oldest :: "'a list \<Rightarrow> 'a \<Rightarrow> 'a list" where
  "put_drop_oldest q x = (if length q > MAX_QUEUE_SIZE then tl q else q) @ [x]"

section \<open>More sample states\<close>

text \<open>A started session without callbacks, and one with a callback for \<open>message\<close>.\<close>

definition plain_session :: "json list session" where
  "plain_session = start_notification_loop (Session_init 7 [])"

definition listening_session :: "json list session" where
  "listening_session =
     (start_notification_loop (Session_init 7 []))\<lparr>callbacks := [''message'' \<mapsto> record_data]\<rparr>"

text \<open>
  The scenario of three messages: on a client whose current session is started, a callback
  for \<open>message\<close> is registered that appends the data it gets to the application's list, and
  the poller receives three messages from the backend, one per wait call.
\<close>

definition started_client :: "json list flow" where
  "started_client = two_sessions\<lparr>sessions := (sessions two_sessions)(7 \<mapsto> plain_session)\<rparr>"

definition three_messages :: "(exn \<Rightarrow> string) \<Rightarrow> string \<Rightarrow> string \<Rightarrow> string \<Rightarrow> json list flow" where
  "three_messages str a b c =
     snd (notification_thread str
       [answers (message_event a), answers (message_event b), answers (message_event c)] 7
       (snd (Flow_register_callback ''message'' record_data 0 started_client)))"

text \<open>The application's list, as the callbacks of session 7 have left it.\<close>

definition app_data :: "json list flow \<Rightarrow> json list option" where
  "app_data fl = map_option user (sessions fl 7)"

text \<open>The same client with the notifications \<open>q\<close> queued and the list \<open>u\<close>.\<close>

definition queued_session :: "json list \<Rightarrow> json list \<Rightarrow> json list session" where
  "queued_session q u =
     \<lparr> sid = 7, callbacks = [''message'' \<mapsto> record_data], notification_queue = q,
       error_queue = [], listen_notifications = True, callback_lock = False, LOG = [],
       user = u \<rparr>"

definition queued :: "json list \<Rightarrow> json list \<Rightarrow> json list flow" where
  "queued q u = started_client\<lparr>sessions := (sessions started_client)(7 \<mapsto> queued_session q u)\<rparr>"

text \<open>
  A callback that leaves the interpreter: it raises \<open>SystemExit\<close>, which is no
  \<open>Exception\<close>. A started session with two queued messages whose callback it is, and a
  client whose current session that is.
\<close>

definition exit_callback :: "json list callback" where
  "exit_callback t d u = (Some SystemExit, u @ [d])"

definition exiting_session :: "json list session" where
  "exiting_session =
     (start_notification_loop (Session_init 7 []))
       \<lparr>callbacks := [''message'' \<mapsto> exit_callback],
        notification_queue := [message_event ''a'', message_event ''b'']\<rparr>"

definition exiting_client :: "json list flow" where
  "exiting_client = two_sessions\<lparr>sessions := (sessions two_sessions)(7 \<mapsto> exiting_session)\<rparr>"

text \<open>
  A client whose current session has had its lock left held by an \<open>unregister_callback\<close>
  of a type without callback, and one whose current session has a queued error.
\<close>

definition leaked_client :: "json list flow" where
  "leaked_client =
     two_sessions\<lparr>sessions := (sessions two_sessions)
       (7 \<mapsto> snd (unregister_callback ''message'' waiting_session))\<rparr>"

definition errored_client :: "json list flow" where
  "errored_client =
     two_sessions\<lparr>sessions := (sessions two_sessions)
       (7 \<mapsto> (Session_init 7 [])\<lparr>error_queue := [''connection reset'']\<rparr>)\<rparr>"

section \<open>The request and its timeout\<close>

lemma py_or_truthy: "x \<noteq> 0 \<Longrightarrow> py_or (Some x) d = Some x"
  by (simp add: py_or_def)

lemma py_or_falsy: "t = None \<or> t = Some 0 \<Longrightarrow> py_or t d = d"
  by (auto simp add: py_or_def)




section \<open>The response\<close>

lemma check_Error_raises:
  "map_of d ''Error'' = Some v \<Longrightarrow> py_len v = Inr n \<Longrightarrow> 0 < n \<Longrightarrow>
   check_Error d = Raises (FlowError v)"
  by (simp add: check_Error_def)

lemma check_Error_unwraps:
  "map_of d ''Error'' = None \<or> (\<exists>v. map_of d ''Error'' = Some v \<and> py_len v = Inr 0) \<Longrightarrow>
   check_Error d = (case map_of d ''result'' of Some r \<Rightarrow> Returns r | None \<Rightarrow> Returns (JObj d))"
  by (auto simp add: check_Error_def)

lemma run_response_error:
  "map_of d ''error'' = Some v \<Longrightarrow> py_len v = Inr n \<Longrightarrow> 0 < n \<Longrightarrow>
   run_response (JObj d) = Raises (FlowError v)"
  by (simp add: run_response_def)

lemma run_response_no_error:
  "map_of d ''error'' = None \<or> (\<exists>v. map_of d ''error'' = Some v \<and> py_len v = Inr 0) \<Longrightarrow>
   run_response (JObj d) = check_Error d"
  by (auto simp add: run_response_def)

text \<open>
  What \<open>len\<close> makes of an error field that is no string, list or dict: the call ends
  with a \<open>TypeError\<close>. The backend's contract has the field a string.
\<close>

lemma run_response_unsized_error:
  "run_response (JObj [(''error'', JNull), (''result'', r)]) = Raises TypeError"
  by (simp add: run_response_def)

text \<open>
  C6. Let the backend answer a request with the dict \<open>d\<close>, an error field that is present
  having a length, as a string has. If \<open>d\<close> has a non-empty field \<open>error\<close>, \<open>_run\<close> raises
  \<open>FlowError\<close> with that value. Otherwise, if it has a non-empty field \<open>Error\<close>, \<open>_run\<close>
  raises \<open>FlowError\<close> with that one. Otherwise the value under \<open>result\<close> is returned if
  there is one, and the whole dict if not.
\<close>

theorem run_response_cases:
  assumes "post (build_request method timeout params fl) = Response (JObj d)"
  shows "(\<forall>v n. map_of d ''error'' = Some v \<and> py_len v = Inr n \<and> 0 < n \<longrightarrow>
            run method timeout params fl post = Raises (FlowError v))
    \<and> ((map_of d ''error'' = None \<or> (\<exists>w. map_of d ''error'' = Some w \<and> py_len w = Inr 0)) \<longrightarrow>
       (\<forall>v n. map_of d ''Error'' = Some v \<and> py_len v = Inr n \<and> 0 < n \<longrightarrow>
            run method timeout params fl post = Raises (FlowError v))
       \<and> ((map_of d ''Error'' = None \<or> (\<exists>w. map_of d ''Error'' = Some w \<and> py_len w = Inr 0)) \<longrightarrow>
          (\<forall>r. map_of d ''result'' = Some r \<longrightarrow> run method timeout params fl post = Returns r)
          \<and> (map_of d ''result'' = None \<longrightarrow>
               run method timeout params fl post = Returns (JObj d))))"
proof -
  have r: "run method timeout params fl post = run_response (JObj d)"
    using assms by (simp add: run_def http_outcome_def)
  show ?thesis
    unfolding r
    by (auto simp add: run_response_error run_response_no_error check_Error_raises
        check_Error_unwraps)
qed

theorem run_response_cases_witness:
  "run ''NewSession'' None [] two_sessions
       (\<lambda>r. Response (JObj [(''error'', JStr ''no account''), (''result'', JNum 1)]))
     = Raises (FlowError (JStr ''no account''))
   \<and> run ''NewSession'' None [] two_sessions
       (\<lambda>r. Response (JObj [(''error'', JStr ''''), (''Error'', JStr ''not started'')]))
     = Raises (FlowError (JStr ''not started''))
   \<and> run ''NewSession'' None [] two_sessions
       (\<lambda>r. Response (JObj [(''error'', JStr ''''), (''result'', JObj [(''SessionID'', JNum 3)])]))
     = Returns (JObj [(''SessionID'', JNum 3)])
   \<and> run ''NewSession'' None [] two_sessions
       (\<lambda>r. Response (JObj [(''SessionID'', JNum 3)]))
     = Returns (JObj [(''SessionID'', JNum 3)])"
  using
    run_response_cases [of "\<lambda>r. Response (JObj [(''error'', JStr ''no account''), (''result'', JNum 1)])"
      "''NewSession''" None "[]" two_sessions "[(''error'', JStr ''no account''), (''result'', JNum 1)]"]
    run_response_cases [of "\<lambda>r. Response (JObj [(''error'', JStr ''''), (''Error'', JStr ''not started'')])"
      "''NewSession''" None "[]" two_sessions "[(''error'', JStr ''''), (''Error'', JStr ''not started'')]"]
    run_response_cases [of "\<lambda>r. Response (JObj [(''error'', JStr ''''), (''result'', JObj [(''SessionID'', JNum 3)])])"
      "''NewSession''" None "[]" two_sessions "[(''error'', JStr ''''), (''result'', JObj [(''SessionID'', JNum 3)])]"]
    run_response_cases [of "\<lambda>r. Response (JObj [(''SessionID'', JNum 3)])"
      "''NewSession''" None "[]" two_sessions "[(''SessionID'', JNum 3)]"]
  by simp

section \<open>The callback lock\<close>

lemma register_callback_blocked: "callback_lock s \<Longrightarrow> register_callback n cb s = (Blocks, s)"
  by (simp add: register_callback_def)

lemma unregister_callback_blocked: "callback_lock s \<Longrightarrow> unregister_callback n s = (Blocks, s)"
  by (simp add: unregister_callback_def)

lemma consume_notification_blocked:
  "callback_lock s \<Longrightarrow> notification_queue s = x # q \<Longrightarrow> \<forall>secs. t = Some secs \<longrightarrow> 0 \<le> secs \<Longrightarrow>
   consume_notification str t s = (Blocks, s\<lparr>notification_queue := q\<rparr>)"
  by (cases t) (auto simp add: consume_notification_def Queue_get_def)

lemma notification_loop_blocked:
  "callback_lock s \<Longrightarrow> listen_notifications s \<Longrightarrow>
   wait_for_notification (sid s) None fl (wait_post b) = Returns changes \<Longrightarrow>
   notification_loop str fl (b # bs) s = (Stuck, s)"
  by simp

text \<open>
  C8. Called on a session whose lock is free with a type that has no callback,
  \<open>unregister_callback\<close> raises \<open>KeyError\<close> and leaves the lock held. From then on
  \<open>register_callback\<close> and \<open>unregister_callback\<close> block, \<open>consume_notification\<close> blocks
  once it has taken a notification from the queue, and the poller blocks when a wait call
  has returned and it wants the lock to queue the changes; each of them leaves the lock
  held, so the next one blocks as well.
\<close>

theorem unregister_missing_keeps_lock:
  assumes "\<not> callback_lock s" and "callbacks s n = None"
  shows "unregister_callback n s = (Raises (KeyError (JStr n)), s\<lparr>callback_lock := True\<rparr>)
    \<and> register_callback m cb (snd (unregister_callback n s)) =
        (Blocks, s\<lparr>callback_lock := True\<rparr>)
    \<and> unregister_callback m (snd (unregister_callback n s)) =
        (Blocks, s\<lparr>callback_lock := True\<rparr>)
    \<and> (\<forall>x q. notification_queue s = x # q \<and> (\<forall>secs. t = Some secs \<longrightarrow> 0 \<le> secs) \<longrightarrow>
          consume_notification str t (snd (unregister_callback n s)) =
            (Blocks, s\<lparr>callback_lock := True, notification_queue := q\<rparr>))
    \<and> (\<forall>changes. listen_notifications s
          \<and> wait_for_notification (sid s) None fl (wait_post b) = Returns changes \<longrightarrow>
          notification_loop str fl (b # bs) (snd (unregister_callback n s)) =
            (Stuck, s\<lparr>callback_lock := True\<rparr>))"
proof -
  let ?s' = "s\<lparr>callback_lock := True\<rparr>"
  have u: "unregister_callback n s = (Raises (KeyError (JStr n)), ?s')"
    using assms by (simp add: unregister_callback_def)
  have l: "callback_lock ?s'" by simp
  show ?thesis
    unfolding u snd_conv
    using register_callback_blocked [OF l] unregister_callback_blocked [OF l]
      consume_notification_blocked [OF l] notification_loop_blocked [OF l]
    by auto
qed

theorem unregister_missing_keeps_lock_witness:
  "\<not> callback_lock waiting_session \<and> callbacks waiting_session ''message'' = None
   \<and> fst (unregister_callback ''message'' waiting_session) = Raises (KeyError (JStr ''message''))
   \<and> callback_lock (snd (unregister_callback ''message'' waiting_session))
   \<and> fst (register_callback ''message'' (\<lambda>t d u. (None, u @ [d]))
        (snd (unregister_callback ''message'' waiting_session))) = Blocks
   \<and> fst (unregister_callback ''message''
        (snd (unregister_callback ''message'' waiting_session))) = Blocks
   \<and> fst (consume_notification (\<lambda>e. ''error'') (Some (1 / 20))
        (snd (unregister_callback ''message'' waiting_session))) = Blocks
   \<and> fst (notification_loop (\<lambda>e. ''error'') two_sessions [answers (message_event ''b'')]
        (snd (unregister_callback ''message'' waiting_session))) = Stuck"
proof -
  have h1: "\<not> callback_lock waiting_session"
    by (simp add: waiting_session_def start_notification_loop_def Session_init_def)
  have h2: "callbacks waiting_session ''message'' = None"
    by (simp add: waiting_session_def start_notification_loop_def Session_init_def)
  have q: "notification_queue waiting_session = [message_event ''a'']"
    by (simp add: waiting_session_def)
  have l: "listen_notifications waiting_session"
    by (simp add: waiting_session_def start_notification_loop_def)
  have w: "wait_for_notification (sid waiting_session) None two_sessions
      (wait_post (answers (message_event ''b''))) = Returns (message_event ''b'')"
    by (simp add: wait_for_notification_def run_def http_outcome_def run_response_def
        check_Error_def answers_def)
  have t: "(1 / 20 :: rat) \<ge> 0" by simp
  show ?thesis
    using h1 h2 q l w t
      unregister_missing_keeps_lock [OF h1 h2, of "''message''"
        "\<lambda>t d u. (None, u @ [d])" "Some (1 / 20)" "\<lambda>e. ''error''" two_sessions
        "answers (message_event ''b'')" "[]"]
    by (elim conjE) (simp del: notification_loop.simps)
qed

section \<open>The poller and a failing wait call\<close>

lemma queue_error_queue:
  "error_queue (queue_error e s) =
     (if length (error_queue s) > MAX_QUEUE_SIZE then tl (error_queue s) else error_queue s) @ [e]"
  by (simp add: queue_error_def Let_def split: list.splits)

lemma queue_error_others:
  "listen_notifications (queue_error e s) = listen_notifications s"
  "callback_lock (queue_error e s) = callback_lock s"
  "notification_queue (queue_error e s) = notification_queue s"
  "callbacks (queue_error e s) = callbacks s"
  "user (queue_error e s) = user s"
  "sid (queue_error e s) = sid s"
  by (simp_all add: queue_error_def Let_def split: list.splits)

text \<open>
  C5. Let the poller be running and its wait call fail with an exception. If the backend
  process has exited (\<open>poll()\<close> gives an exit code), the loop ends at once, the session
  is as it was and nothing is put on the error queue, whatever the backend would have
  answered next. If the process is alive, the description of the error is put on the error
  queue and the loop goes on with the next wait call at once: with the flag still set, and
  waiting in that call when the backend answers nothing more.
\<close>

theorem wait_failure_handling:
  assumes "listen_notifications s"
    and "wait_for_notification (sid s) None fl (wait_post b) = Raises flow_err"
    and "is_Exception flow_err"
  shows "(glue_poll b \<noteq> None \<longrightarrow> notification_loop str fl (b # bs) s = (Broke, s))
    \<and> (glue_poll b = None \<longrightarrow>
         notification_loop str fl (b # bs) s =
           notification_loop str fl bs (queue_error (str flow_err) s)
         \<and> notification_loop str fl [b] s = (Waiting, queue_error (str flow_err) s)
         \<and> error_queue (queue_error (str flow_err) s) =
             (if length (error_queue s) > 128 then tl (error_queue s) else error_queue s)
               @ [str flow_err]
         \<and> listen_notifications (queue_error (str flow_err) s))"
  using assms by (simp add: queue_error_queue queue_error_others MAX_QUEUE_SIZE_def)

theorem wait_failure_handling_witness:
  "notification_loop (\<lambda>e. ''connection reset'') two_sessions
      [fails ''reset'' (Some 1), fails ''reset'' None]
      (start_notification_loop (Session_init 7 [])) =
     (Broke, start_notification_loop (Session_init 7 []))
   \<and> notification_loop (\<lambda>e. ''connection reset'') two_sessions
      [fails ''reset'' None, fails ''reset'' (Some 1)]
      (start_notification_loop (Session_init 7 [])) =
     (Broke, (start_notification_loop (Session_init 7 []))\<lparr>error_queue := [''connection reset'']\<rparr>)
   \<and> notification_loop (\<lambda>e. ''connection reset'') two_sessions
      [fails ''reset'' None]
      (start_notification_loop (Session_init 7 [])) =
     (Waiting, (start_notification_loop (Session_init 7 []))\<lparr>error_queue := [''connection reset'']\<rparr>)"
proof -
  let ?s = "start_notification_loop (Session_init 7 ([] :: json list))"
  let ?str = "\<lambda>e :: exn. ''connection reset''"
  have l: "listen_notifications ?s" by (simp add: start_notification_loop_def)
  have w: "wait_for_notification (sid ?s) None two_sessions (wait_post (fails ''reset'' c))
      = Raises (FlowConnectionError ''reset'')" for c
    by (simp add: wait_for_notification_def run_def http_outcome_def fails_def)
  have x: "is_Exception (FlowConnectionError ''reset'')" by simp
  have q: "queue_error ''connection reset'' ?s = ?s\<lparr>error_queue := [''connection reset'']\<rparr>"
    by (simp add: queue_error_def start_notification_loop_def Session_init_def MAX_QUEUE_SIZE_def)
  have l2: "listen_notifications (?s\<lparr>error_queue := [''connection reset'']\<rparr>)"
    by (simp add: start_notification_loop_def)
  have w2: "wait_for_notification (sid (?s\<lparr>error_queue := [''connection reset'']\<rparr>)) None
      two_sessions (wait_post (fails ''reset'' c)) = Raises (FlowConnectionError ''reset'')" for c
    by (simp add: wait_for_notification_def run_def http_outcome_def fails_def)
  have p: "glue_poll (fails ''reset'' c) = c" for c by (simp add: fails_def)
  show ?thesis
    using wait_failure_handling [OF l w x, of "Some 1" ?str "[fails ''reset'' None]"]
      wait_failure_handling [OF l w x, of None ?str "[fails ''reset'' (Some 1)]"]
      wait_failure_handling [OF l2 w2 x, of "Some 1" ?str "[]"]
    by (simp del: notification_loop.simps add: p q)
qed

section \<open>Dispatch\<close>

lemma py_in_dict_is_Exception: "py_in_dict t d = Inl e \<Longrightarrow> is_Exception e"
  by (cases t) auto

lemma py_getitem_is_Exception: "py_getitem x k = Inl e \<Longrightarrow> is_Exception e"
  by (cases x) (auto split: option.splits)

lemma py_dict_get_is_Exception: "py_dict_get d t = Inl e \<Longrightarrow> is_Exception e"
  by (cases t) (auto split: option.splits)

lemma py_dict_get_Inr: "py_dict_get d t = Inr cb \<Longrightarrow> \<exists>n. t = JStr n \<and> d n = Some cb"
  by (cases t) (auto split: option.splits)

text \<open>The exceptions of the block are those of the callbacks and exceptions that \<open>except Exception\<close> catches.\<close>

lemma dispatch_is_Exception:
  assumes "\<forall>n cb t d u e. callbacks s n = Some cb \<and> fst (cb t d u) = Some e \<longrightarrow> is_Exception e"
    and "fst (dispatch x s) = Some e"
  shows "is_Exception e"
  using assms(2)
  apply (simp add: dispatch_def split: sum.splits bool.splits prod.splits)
      apply (auto dest: py_getitem_is_Exception py_in_dict_is_Exception py_dict_get_is_Exception)
  apply (drule py_dict_get_Inr)
  using assms(1) apply (metis fst_conv)
  done

lemma dispatch_unregistered:
  "py_getitem x ''type'' = Inr (JStr t) \<Longrightarrow> callbacks s t = None \<Longrightarrow>
   dispatch x s = (Some (Exception [JStr ''Notification of type %s not supported.'', JStr t]), s)"
  by (simp add: dispatch_def)

lemma dispatch_registered:
  "py_getitem x ''type'' = Inr (JStr t) \<Longrightarrow> py_getitem x ''data'' = Inr d \<Longrightarrow>
   callbacks s t = Some cb \<Longrightarrow> cb (JStr t) d (user s) = (r, u') \<Longrightarrow>
   dispatch x s = (r, s\<lparr>user := u'\<rparr>)"
  by (simp add: dispatch_def)

lemma consume_notification_empty:
  "notification_queue s = [] \<Longrightarrow> 0 \<le> secs \<Longrightarrow>
   consume_notification str (Some secs) s = (Returns False, s)"
  by (simp add: consume_notification_def Queue_get_def)

lemma consume_notification_pop:
  "notification_queue s = x # q \<Longrightarrow> 0 \<le> secs \<Longrightarrow> \<not> callback_lock s \<Longrightarrow>
   consume_notification str (Some secs) s =
     (case dispatch x (s\<lparr>notification_queue := q, callback_lock := True\<rparr>) of
        (None, s2) \<Rightarrow> (Returns True, s2\<lparr>callback_lock := False\<rparr>)
      | (Some exception, s2) \<Rightarrow>
          if is_Exception exception then
            (Returns True,
             s2\<lparr>LOG := LOG s2 @ [Log DEBUG ''Error: %s'' (JStr (str exception))],
                callback_lock := False\<rparr>)
          else (Raises exception, s2\<lparr>callback_lock := False\<rparr>))"
  by (simp add: consume_notification_def Queue_get_def)

lemma consume_notification_True:
  assumes "notification_queue s = x # q" "0 \<le> secs" "\<not> callback_lock s"
    and "\<forall>n cb t d u e. callbacks s n = Some cb \<and> fst (cb t d u) = Some e \<longrightarrow> is_Exception e"
  shows "fst (consume_notification str (Some secs) s) = Returns True"
proof -
  let ?s1 = "s\<lparr>notification_queue := q, callback_lock := True\<rparr>"
  have c: "\<forall>n cb t d u e. callbacks ?s1 n = Some cb \<and> fst (cb t d u) = Some e \<longrightarrow> is_Exception e"
    using assms(4) by simp
  obtain r s2 where d: "dispatch x ?s1 = (r, s2)" by (cases "dispatch x ?s1")
  show ?thesis
  proof (cases r)
    case None
    then show ?thesis using d assms(1-3) by (simp add: consume_notification_pop)
  next
    case (Some e)
    then have "is_Exception e" using dispatch_is_Exception [OF c, of x e] d by simp
    then show ?thesis using d Some assms(1-3) by (simp add: consume_notification_pop)
  qed
qed

lemma consume_notification_unregistered:
  "notification_queue s = x # q \<Longrightarrow> 0 \<le> secs \<Longrightarrow> \<not> callback_lock s \<Longrightarrow>
   py_getitem x ''type'' = Inr (JStr t) \<Longrightarrow> callbacks s t = None \<Longrightarrow>
   consume_notification str (Some secs) s =
     (Returns True,
      s\<lparr>notification_queue := q,
        LOG := LOG s @ [Log DEBUG ''Error: %s''
          (JStr (str (Exception [JStr ''Notification of type %s not supported.'', JStr t])))]\<rparr>)"
  by (simp add: consume_notification_pop dispatch_unregistered)

lemma consume_notification_raised:
  "notification_queue s = x # q \<Longrightarrow> 0 \<le> secs \<Longrightarrow> \<not> callback_lock s \<Longrightarrow>
   py_getitem x ''type'' = Inr (JStr t) \<Longrightarrow> py_getitem x ''data'' = Inr d \<Longrightarrow>
   callbacks s t = Some cb \<Longrightarrow> cb (JStr t) d (user s) = (Some e, u') \<Longrightarrow> is_Exception e \<Longrightarrow>
   consume_notification str (Some secs) s =
     (Returns True,
      s\<lparr>notification_queue := q, user := u',
        LOG := LOG s @ [Log DEBUG ''Error: %s'' (JStr (str e))]\<rparr>)"
  by (simp add: consume_notification_pop dispatch_registered [where r = "Some e" and u' = u'])

lemma consume_notification_returned:
  "notification_queue s = x # q \<Longrightarrow> 0 \<le> secs \<Longrightarrow> \<not> callback_lock s \<Longrightarrow>
   py_getitem x ''type'' = Inr (JStr t) \<Longrightarrow> py_getitem x ''data'' = Inr d \<Longrightarrow>
   callbacks s t = Some cb \<Longrightarrow> cb (JStr t) d (user s) = (None, u') \<Longrightarrow>
   consume_notification str (Some secs) s =
     (Returns True, s\<lparr>notification_queue := q, user := u'\<rparr>)"
  by (simp add: consume_notification_pop dispatch_registered [where r = None and u' = u'])

lemma on_session_found:
  "sessions fl k = Some s \<Longrightarrow>
   on_session k op fl = (fst (op s), fl\<lparr>sessions := (sessions fl)(k \<mapsto> snd (op s))\<rparr>)"
  by (simp add: on_session_def split: prod.splits)

lemma get_session_id_sessions_update:
  "get_session_id i (fl\<lparr>sessions := m\<rparr>) = get_session_id i fl"
  by (simp add: get_session_id_def)

lemma process_one_notification_found:
  "sessions fl (get_session_id i fl) = Some s \<Longrightarrow>
   process_one_notification str t i fl =
     (fst (consume_notification str t s),
      fl\<lparr>sessions := (sessions fl)(get_session_id i fl \<mapsto> snd (consume_notification str t s))\<rparr>)"
  by (simp add: process_one_notification_def on_session_found)

lemma raising_client_session:
  "sessions raising_client (get_session_id 0 raising_client) = Some raising_session"
  by (simp add: raising_client_def get_session_id_def two_sessions_def)

lemma raising_session_Exceptions:
  "\<forall>n cb t d u e. callbacks raising_session n = Some cb \<and> fst (cb t d u) = Some e
     \<longrightarrow> is_Exception e"
  by (auto simp add: raising_session_def raise_error_def record_data_def split: if_splits)

lemma two_sessions_session:
  "sessions two_sessions (get_session_id 0 two_sessions) = Some (Session_init 7 [])"
  by (simp add: get_session_id_def two_sessions_def)

text \<open>
  What leaves \<open>consume_notification\<close>: an exception of a callback that is no
  \<open>Exception\<close> passes the \<open>except\<close> clause and, the lock released, reaches the caller.
\<close>

lemma consume_notification_escapes:
  "notification_queue s = x # q \<Longrightarrow> 0 \<le> secs \<Longrightarrow> \<not> callback_lock s \<Longrightarrow>
   py_getitem x ''type'' = Inr (JStr t) \<Longrightarrow> py_getitem x ''data'' = Inr d \<Longrightarrow>
   callbacks s t = Some cb \<Longrightarrow> cb (JStr t) d (user s) = (Some e, u') \<Longrightarrow> \<not> is_Exception e \<Longrightarrow>
   consume_notification str (Some secs) s =
     (Raises e, s\<lparr>notification_queue := q, user := u'\<rparr>)"
  by (simp add: consume_notification_pop dispatch_registered [where r = "Some e" and u' = u'])

lemma consume_notification_not_False:
  assumes "notification_queue s = x # q" "0 \<le> secs"
  shows "fst (consume_notification str (Some secs) s) \<noteq> Returns False"
proof (cases "callback_lock s")
  case True
  then show ?thesis
    using consume_notification_blocked [OF True assms(1), of "Some secs" str] assms(2) by simp
next
  case False
  obtain r s2 where d: "dispatch x (s\<lparr>notification_queue := q, callback_lock := True\<rparr>) = (r, s2)"
    by (cases "dispatch x (s\<lparr>notification_queue := q, callback_lock := True\<rparr>)")
  show ?thesis
    using d by (cases r) (simp_all add: consume_notification_pop [OF assms(1) assms(2) False])
qed

lemma on_session_same:
  "sessions fl k = Some s \<Longrightarrow> fl\<lparr>sessions := (sessions fl)(k \<mapsto> s)\<rparr> = fl"
  by (simp add: map_upd_triv)

lemma exiting_client_session:
  "sessions exiting_client (get_session_id 0 exiting_client) = Some exiting_session"
  by (simp add: exiting_client_def get_session_id_def two_sessions_def)

lemma exiting_session_facts:
  "\<not> callback_lock exiting_session"
  "notification_queue exiting_session = message_event ''a'' # [message_event ''b'']"
  "callbacks exiting_session ''message'' = Some exit_callback"
  "exit_callback (JStr ''message'') (JStr ''a'') (user exiting_session) = (Some SystemExit, [JStr ''a''])"
  by (simp_all add: exiting_session_def start_notification_loop_def Session_init_def
      exit_callback_def)

lemma message_event_items:
  "py_getitem (message_event x) ''type'' = Inr (JStr ''message'')"
  "py_getitem (message_event x) ''data'' = Inr (JStr x)"
  by (simp_all add: message_event_def)

lemma exiting_client_raises:
  "process_one_notification str (Some (1 / 20)) 0 exiting_client =
     (Raises SystemExit,
      exiting_client\<lparr>sessions := (sessions exiting_client)(get_session_id 0 exiting_client \<mapsto>
        exiting_session\<lparr>notification_queue := [message_event ''b''], user := [JStr ''a'']\<rparr>)\<rparr>)"
proof -
  have t: "(0 :: rat) \<le> 1 / 20" by simp
  have n: "\<not> is_Exception SystemExit" by simp
  show ?thesis
    using consume_notification_escapes [OF exiting_session_facts(2) t exiting_session_facts(1)
        message_event_items(1) message_event_items(2) exiting_session_facts(3)
        exiting_session_facts(4) n, of str]
    by (simp add: process_one_notification_found [OF exiting_client_session])
qed

lemma leaked_client_session:
  "sessions leaked_client (get_session_id 0 leaked_client) =
     Some (waiting_session\<lparr>callback_lock := True\<rparr>)"
  by (simp add: leaked_client_def get_session_id_def two_sessions_def unregister_callback_def
      waiting_session_def start_notification_loop_def Session_init_def)

text \<open>
  C9, as the code has it. Let the session be found and the timeout be a non-negative
  number. \<open>process_one_notification\<close> returns \<open>False\<close> exactly when the notification queue
  is empty, and then nothing changes. With the lock free and callbacks that raise
  exceptions of the \<open>Exception\<close> hierarchy only, it returns \<open>True\<close> exactly when the queue
  holds a notification to take: when the type of the notification taken has no callback,
  or its callback raises such an exception, the notification is gone from the queue, a
  debug record is all that is left of the failure, and the call returns \<open>True\<close>. When the
  callback raises an exception outside that hierarchy, the notification is gone and the
  exception reaches the caller; when the lock is held, the notification is gone and the
  call blocks.
\<close>

theorem process_one_notification_result:
  assumes "sessions fl (get_session_id i fl) = Some s" and "0 \<le> secs"
  shows "(fst (process_one_notification str (Some secs) i fl) = Returns False
            \<longleftrightarrow> notification_queue s = [])
    \<and> (notification_queue s = [] \<longrightarrow>
          process_one_notification str (Some secs) i fl = (Returns False, fl))
    \<and> (\<not> callback_lock s
          \<and> (\<forall>n cb t d u e. callbacks s n = Some cb \<and> fst (cb t d u) = Some e \<longrightarrow> is_Exception e)
          \<longrightarrow> (fst (process_one_notification str (Some secs) i fl) = Returns True
                 \<longleftrightarrow> notification_queue s \<noteq> []))
    \<and> (\<forall>x q t. \<not> callback_lock s \<and> notification_queue s = x # q
            \<and> py_getitem x ''type'' = Inr (JStr t) \<and> callbacks s t = None \<longrightarrow>
          process_one_notification str (Some secs) i fl =
            (Returns True,
             fl\<lparr>sessions := (sessions fl)(get_session_id i fl \<mapsto>
               s\<lparr>notification_queue := q,
                 LOG := LOG s @ [Log DEBUG ''Error: %s'' (JStr (str
                   (Exception [JStr ''Notification of type %s not supported.'', JStr t])))]\<rparr>)\<rparr>))
    \<and> (\<forall>x q t d cb e u'. \<not> callback_lock s \<and> notification_queue s = x # q
            \<and> py_getitem x ''type'' = Inr (JStr t) \<and> py_getitem x ''data'' = Inr d
            \<and> callbacks s t = Some cb \<and> cb (JStr t) d (user s) = (Some e, u')
            \<and> is_Exception e \<longrightarrow>
          process_one_notification str (Some secs) i fl =
            (Returns True,
             fl\<lparr>sessions := (sessions fl)(get_session_id i fl \<mapsto>
               s\<lparr>notification_queue := q, user := u',
                 LOG := LOG s @ [Log DEBUG ''Error: %s'' (JStr (str e))]\<rparr>)\<rparr>))
    \<and> (\<forall>x q t d cb e u'. \<not> callback_lock s \<and> notification_queue s = x # q
            \<and> py_getitem x ''type'' = Inr (JStr t) \<and> py_getitem x ''data'' = Inr d
            \<and> callbacks s t = Some cb \<and> cb (JStr t) d (user s) = (Some e, u')
            \<and> \<not> is_Exception e \<longrightarrow>
          process_one_notification str (Some secs) i fl =
            (Raises e,
             fl\<lparr>sessions := (sessions fl)(get_session_id i fl \<mapsto>
               s\<lparr>notification_queue := q, user := u'\<rparr>)\<rparr>))
    \<and> (\<forall>x q. callback_lock s \<and> notification_queue s = x # q \<longrightarrow>
          process_one_notification str (Some secs) i fl =
            (Blocks,
             fl\<lparr>sessions := (sessions fl)(get_session_id i fl \<mapsto>
               s\<lparr>notification_queue := q\<rparr>)\<rparr>))"
proof -
  note p = process_one_notification_found [OF assms(1)]
  have b: "process_one_notification str (Some secs) i fl = (Returns False, fl)"
    if "notification_queue s = []"
    using that assms(2) by (simp add: p consume_notification_empty on_session_same [OF assms(1)])
  have a: "fst (process_one_notification str (Some secs) i fl) = Returns False
      \<longleftrightarrow> notification_queue s = []"
  proof (cases "notification_queue s")
    case Nil
    then show ?thesis using b by simp
  next
    case (Cons x q)
    then show ?thesis
      using consume_notification_not_False [OF Cons assms(2), of str] by (simp add: p)
  qed
  have c: "fst (process_one_notification str (Some secs) i fl) = Returns True
      \<longleftrightarrow> notification_queue s \<noteq> []"
    if l: "\<not> callback_lock s"
      and h: "\<forall>n cb t d u e. callbacks s n = Some cb \<and> fst (cb t d u) = Some e \<longrightarrow> is_Exception e"
  proof (cases "notification_queue s")
    case Nil
    then show ?thesis using b by simp
  next
    case (Cons x q)
    then show ?thesis
      using consume_notification_True [OF Cons assms(2) l h] by (simp add: p)
  qed
  have d: "process_one_notification str (Some secs) i fl =
            (Returns True,
             fl\<lparr>sessions := (sessions fl)(get_session_id i fl \<mapsto>
               s\<lparr>notification_queue := q,
                 LOG := LOG s @ [Log DEBUG ''Error: %s'' (JStr (str
                   (Exception [JStr ''Notification of type %s not supported.'', JStr t])))]\<rparr>)\<rparr>)"
    if h: "\<not> callback_lock s" "notification_queue s = x # q"
      "py_getitem x ''type'' = Inr (JStr t)" "callbacks s t = None"
    for x q t
    using consume_notification_unregistered [OF h(2) assms(2) h(1) h(3) h(4)]
    by (simp add: p)
  have e: "process_one_notification str (Some secs) i fl =
            (Returns True,
             fl\<lparr>sessions := (sessions fl)(get_session_id i fl \<mapsto>
               s\<lparr>notification_queue := q, user := u',
                 LOG := LOG s @ [Log DEBUG ''Error: %s'' (JStr (str e))]\<rparr>)\<rparr>)"
    if h: "\<not> callback_lock s" "notification_queue s = x # q"
      "py_getitem x ''type'' = Inr (JStr t)" "py_getitem x ''data'' = Inr d"
      "callbacks s t = Some cb" "cb (JStr t) d (user s) = (Some e, u')" "is_Exception e"
    for x q t d cb e u'
    using consume_notification_raised [OF h(2) assms(2) h(1) h(3) h(4) h(5) h(6) h(7)]
    by (simp add: p)
  have f: "process_one_notification str (Some secs) i fl =
            (Raises e,
             fl\<lparr>sessions := (sessions fl)(get_session_id i fl \<mapsto>
               s\<lparr>notification_queue := q, user := u'\<rparr>)\<rparr>)"
    if h: "\<not> callback_lock s" "notification_queue s = x # q"
      "py_getitem x ''type'' = Inr (JStr t)" "py_getitem x ''data'' = Inr d"
      "callbacks s t = Some cb" "cb (JStr t) d (user s) = (Some e, u')" "\<not> is_Exception e"
    for x q t d cb e u'
    using consume_notification_escapes [OF h(2) assms(2) h(1) h(3) h(4) h(5) h(6) h(7)]
    by (simp add: p)
  have g: "process_one_notification str (Some secs) i fl =
            (Blocks,
             fl\<lparr>sessions := (sessions fl)(get_session_id i fl \<mapsto>
               s\<lparr>notification_queue := q\<rparr>)\<rparr>)"
    if h: "callback_lock s" "notification_queue s = x # q" for x q
    using consume_notification_blocked [OF h(1) h(2), of "Some secs" str] assms(2)
    by (simp add: p)
  show ?thesis using a b c d e f g by blast
qed

theorem process_one_notification_result_witness:
  "fst (process_one_notification (\<lambda>e. ''error'') (Some (1 / 20)) 0 raising_client) = Returns True
   \<and> notification_queue raising_session \<noteq> []
   \<and> process_one_notification (\<lambda>e. ''error'') (Some (1 / 20)) 0 two_sessions
       = (Returns False, two_sessions)
   \<and> notification_queue (Session_init 7 ([] :: json list)) = []
   \<and> fst (process_one_notification (\<lambda>e. ''error'') (Some (1 / 20)) 0 exiting_client)
       = Raises SystemExit
   \<and> fst (process_one_notification (\<lambda>e. ''error'') (Some (1 / 20)) 0 leaked_client) = Blocks"
proof -
  have t: "(0 :: rat) \<le> 1 / 20" by simp
  have l1: "\<not> callback_lock raising_session"
    by (simp add: raising_session_def start_notification_loop_def Session_init_def)
  have q1: "notification_queue raising_session \<noteq> []" by (simp add: raising_session_def)
  have q2: "notification_queue (Session_init 7 ([] :: json list)) = []"
    by (simp add: Session_init_def)
  have n: "\<not> is_Exception SystemExit" by simp
  have l3: "callback_lock (waiting_session\<lparr>callback_lock := True\<rparr>)"
    "notification_queue (waiting_session\<lparr>callback_lock := True\<rparr>) = message_event ''a'' # []"
    by (simp_all add: waiting_session_def)
  note A = process_one_notification_result [OF raising_client_session t, of "\<lambda>e. ''error''"]
  note B = process_one_notification_result [OF two_sessions_session t, of "\<lambda>e. ''error''"]
  note C = process_one_notification_result [OF exiting_client_session t, of "\<lambda>e. ''error''"]
  note D = process_one_notification_result [OF leaked_client_session t, of "\<lambda>e. ''error''"]
  have a: "fst (process_one_notification (\<lambda>e. ''error'') (Some (1 / 20)) 0 raising_client)
      = Returns True"
    using A [THEN conjunct2, THEN conjunct2, THEN conjunct1] l1 raising_session_Exceptions q1
    by blast
  have b: "process_one_notification (\<lambda>e. ''error'') (Some (1 / 20)) 0 two_sessions
      = (Returns False, two_sessions)"
    using B [THEN conjunct2, THEN conjunct1] q2 by blast
  obtain fl1 where "process_one_notification (\<lambda>e. ''error'') (Some (1 / 20)) 0 exiting_client
      = (Raises SystemExit, fl1)"
    using C [THEN conjunct2, THEN conjunct2, THEN conjunct2, THEN conjunct2, THEN conjunct2,
        THEN conjunct1]
      exiting_session_facts message_event_items [of "''a''"] n
    by blast
  then have c: "fst (process_one_notification (\<lambda>e. ''error'') (Some (1 / 20)) 0 exiting_client)
      = Raises SystemExit"
    by simp
  obtain fl2 where "process_one_notification (\<lambda>e. ''error'') (Some (1 / 20)) 0 leaked_client
      = (Blocks, fl2)"
    using D [THEN conjunct2, THEN conjunct2, THEN conjunct2, THEN conjunct2, THEN conjunct2,
        THEN conjunct2] l3
    by blast
  then have d: "fst (process_one_notification (\<lambda>e. ''error'') (Some (1 / 20)) 0 leaked_client)
      = Blocks"
    by simp
  show ?thesis using a b c d q1 q2 by simp
qed

text \<open>
  The claim as first stated fails: a notification is taken from the queue and the call
  does not return \<open>True\<close>, once because the callback raises \<open>SystemExit\<close> and the call
  raises it too, once because the lock was left held and the call blocks.
\<close>

theorem popped_without_True_counterexample:
  "fst (process_one_notification (\<lambda>e. ''error'') (Some (1 / 20)) 0 exiting_client)
       = Raises SystemExit
   \<and> map_option notification_queue
        (sessions (snd (process_one_notification (\<lambda>e. ''error'') (Some (1 / 20)) 0 exiting_client)) 7)
       = Some [message_event ''b'']
   \<and> map_option notification_queue (sessions exiting_client 7)
       = Some [message_event ''a'', message_event ''b'']
   \<and> fst (process_one_notification (\<lambda>e. ''error'') (Some (1 / 20)) 0 leaked_client) = Blocks
   \<and> map_option notification_queue
        (sessions (snd (process_one_notification (\<lambda>e. ''error'') (Some (1 / 20)) 0 leaked_client)) 7)
       = Some []
   \<and> map_option notification_queue (sessions leaked_client 7) = Some [message_event ''a'']"
proof -
  have t: "(0 :: rat) \<le> 1 / 20" by simp
  have k: "get_session_id 0 exiting_client = 7" "get_session_id 0 leaked_client = 7"
    by (simp_all add: get_session_id_def exiting_client_def leaked_client_def two_sessions_def)
  have l3: "callback_lock (waiting_session\<lparr>callback_lock := True\<rparr>)"
    "notification_queue (waiting_session\<lparr>callback_lock := True\<rparr>) = message_event ''a'' # []"
    by (simp_all add: waiting_session_def)
  have b: "consume_notification (\<lambda>e. ''error'') (Some (1 / 20))
      (waiting_session\<lparr>callback_lock := True\<rparr>) =
      (Blocks, waiting_session\<lparr>callback_lock := True, notification_queue := []\<rparr>)"
    using consume_notification_blocked [OF l3(1) l3(2), of "Some (1 / 20)" "\<lambda>e. ''error''"]
    by simp
  have e: "sessions exiting_client 7 = Some exiting_session"
    by (simp add: exiting_client_def)
  have l: "sessions leaked_client 7 = Some (waiting_session\<lparr>callback_lock := True\<rparr>)"
    using leaked_client_session by (simp add: k)
  show ?thesis
    by (simp add: exiting_client_raises k e l exiting_session_facts(2)
        process_one_notification_found [OF leaked_client_session] b l3(2))
qed

text \<open>What happens when the callback of the head of the queue raises an \<open>Exception\<close>.\<close>

lemma handler_Exception_logged:
  assumes "sessions fl (get_session_id i fl) = Some s" and "\<not> callback_lock s" and "0 \<le> secs"
    and "notification_queue s = x # q"
    and "py_getitem x ''type'' = Inr (JStr t)" and "py_getitem x ''data'' = Inr d"
    and "callbacks s t = Some cb" and "cb (JStr t) d (user s) = (Some e, u')"
    and "is_Exception e"
  shows "process_one_notification str (Some secs) i fl =
      (Returns True,
       fl\<lparr>sessions := (sessions fl)(get_session_id i fl \<mapsto>
         s\<lparr>notification_queue := q, user := u',
           LOG := LOG s @ [Log DEBUG ''Error: %s'' (JStr (str e))]\<rparr>)\<rparr>)
    \<and> (\<forall>y q' t2 d2 cb2 u2. q = y # q' \<and> py_getitem y ''type'' = Inr (JStr t2)
          \<and> py_getitem y ''data'' = Inr d2 \<and> callbacks s t2 = Some cb2
          \<and> cb2 (JStr t2) d2 u' = (None, u2) \<longrightarrow>
        process_one_notification str (Some secs) i
            (snd (process_one_notification str (Some secs) i fl)) =
          (Returns True,
           fl\<lparr>sessions := (sessions fl)(get_session_id i fl \<mapsto>
             s\<lparr>notification_queue := q', user := u2,
               LOG := LOG s @ [Log DEBUG ''Error: %s'' (JStr (str e))]\<rparr>)\<rparr>))
    \<and> (\<forall>b bs changes. listen_notifications s
          \<and> wait_for_notification (sid s) None fl (wait_post b) = Returns changes \<longrightarrow>
        notification_loop str fl (b # bs)
            (s\<lparr>notification_queue := q, user := u',
               LOG := LOG s @ [Log DEBUG ''Error: %s'' (JStr (str e))]\<rparr>) =
          (case queue_changes changes
              (s\<lparr>notification_queue := q, user := u',
                 LOG := LOG s @ [Log DEBUG ''Error: %s'' (JStr (str e))],
                 callback_lock := True\<rparr>) of
             (Returns u, s2) \<Rightarrow> notification_loop str fl bs (s2\<lparr>callback_lock := False\<rparr>)
           | (Raises e2, s2) \<Rightarrow> (Died e2, s2)
           | (Blocks, s2) \<Rightarrow> (Stuck, s2)))"
proof -
  let ?s' = "s\<lparr>notification_queue := q, user := u',
           LOG := LOG s @ [Log DEBUG ''Error: %s'' (JStr (str e))]\<rparr>"
  let ?fl' = "fl\<lparr>sessions := (sessions fl)(get_session_id i fl \<mapsto> ?s')\<rparr>"
  have a: "process_one_notification str (Some secs) i fl = (Returns True, ?fl')"
    using consume_notification_raised [OF assms(4) assms(3) assms(2) assms(5-9)]
    by (simp add: process_one_notification_found [OF assms(1)])
  have f: "sessions ?fl' (get_session_id i ?fl') = Some ?s'"
    by (simp add: get_session_id_sessions_update)
  have b: "process_one_notification str (Some secs) i ?fl' =
          (Returns True,
           fl\<lparr>sessions := (sessions fl)(get_session_id i fl \<mapsto>
             s\<lparr>notification_queue := q', user := u2,
               LOG := LOG s @ [Log DEBUG ''Error: %s'' (JStr (str e))]\<rparr>)\<rparr>)"
    if "q = y # q'" "py_getitem y ''type'' = Inr (JStr t2)" "py_getitem y ''data'' = Inr d2"
      "callbacks s t2 = Some cb2" "cb2 (JStr t2) d2 u' = (None, u2)"
    for y q' t2 d2 cb2 u2
  proof -
    have "consume_notification str (Some secs) ?s' =
        (Returns True, ?s'\<lparr>notification_queue := q', user := u2\<rparr>)"
      using that assms(2) assms(3)
      by (intro consume_notification_returned [where x = y and t = t2 and d = d2 and cb = cb2]) simp_all
    moreover have "?s'\<lparr>notification_queue := q', user := u2\<rparr> =
        s\<lparr>notification_queue := q', user := u2,
          LOG := LOG s @ [Log DEBUG ''Error: %s'' (JStr (str e))]\<rparr>"
      by simp
    ultimately have "consume_notification str (Some secs) ?s' =
        (Returns True, s\<lparr>notification_queue := q', user := u2,
          LOG := LOG s @ [Log DEBUG ''Error: %s'' (JStr (str e))]\<rparr>)"
      by (simp only:)
    then show ?thesis
      by (simp add: process_one_notification_found [OF f] get_session_id_sessions_update)
  qed
  have c: "notification_loop str fl (b # bs) ?s' =
          (case queue_changes changes
              (s\<lparr>notification_queue := q, user := u',
                 LOG := LOG s @ [Log DEBUG ''Error: %s'' (JStr (str e))],
                 callback_lock := True\<rparr>) of
             (Returns u, s2) \<Rightarrow> notification_loop str fl bs (s2\<lparr>callback_lock := False\<rparr>)
           | (Raises e2, s2) \<Rightarrow> (Died e2, s2)
           | (Blocks, s2) \<Rightarrow> (Stuck, s2))"
    if "listen_notifications s" "wait_for_notification (sid s) None fl (wait_post b) = Returns changes"
    for b bs changes
    using that assms(2) by simp
  show ?thesis unfolding a snd_conv using b c by blast
qed

text \<open>
  C4, as the code has it. Let the callback of the notification at the head of the queue
  raise. If the exception belongs to the \<open>Exception\<close> hierarchy, \<open>process_one_notification\<close>
  returns \<open>True\<close>: the exception is logged and goes no further, the lock is free again,
  and the flag of the poller and the callbacks are as before; the next call dispatches the
  next queued notification to its callback, and the poller, when its wait call returns,
  takes the lock and queues the changes as ever. If the exception is outside that
  hierarchy (\<open>SystemExit\<close>, \<open>KeyboardInterrupt\<close>), it is not caught: the lock is released,
  nothing is logged, and the exception reaches the caller of \<open>process_one_notification\<close>.
\<close>

theorem handler_exception_contained:
  assumes "sessions fl (get_session_id i fl) = Some s" and "\<not> callback_lock s" and "0 \<le> secs"
    and "notification_queue s = x # q"
    and "py_getitem x ''type'' = Inr (JStr t)" and "py_getitem x ''data'' = Inr d"
    and "callbacks s t = Some cb" and "cb (JStr t) d (user s) = (Some e, u')"
  shows "(is_Exception e \<longrightarrow>
      process_one_notification str (Some secs) i fl =
        (Returns True,
         fl\<lparr>sessions := (sessions fl)(get_session_id i fl \<mapsto>
           s\<lparr>notification_queue := q, user := u',
             LOG := LOG s @ [Log DEBUG ''Error: %s'' (JStr (str e))]\<rparr>)\<rparr>)
      \<and> (\<forall>y q' t2 d2 cb2 u2. q = y # q' \<and> py_getitem y ''type'' = Inr (JStr t2)
            \<and> py_getitem y ''data'' = Inr d2 \<and> callbacks s t2 = Some cb2
            \<and> cb2 (JStr t2) d2 u' = (None, u2) \<longrightarrow>
          process_one_notification str (Some secs) i
              (snd (process_one_notification str (Some secs) i fl)) =
            (Returns True,
             fl\<lparr>sessions := (sessions fl)(get_session_id i fl \<mapsto>
               s\<lparr>notification_queue := q', user := u2,
                 LOG := LOG s @ [Log DEBUG ''Error: %s'' (JStr (str e))]\<rparr>)\<rparr>))
      \<and> (\<forall>b bs changes. listen_notifications s
            \<and> wait_for_notification (sid s) None fl (wait_post b) = Returns changes \<longrightarrow>
          notification_loop str fl (b # bs)
              (s\<lparr>notification_queue := q, user := u',
                 LOG := LOG s @ [Log DEBUG ''Error: %s'' (JStr (str e))]\<rparr>) =
            (case queue_changes changes
                (s\<lparr>notification_queue := q, user := u',
                   LOG := LOG s @ [Log DEBUG ''Error: %s'' (JStr (str e))],
                   callback_lock := True\<rparr>) of
               (Returns u, s2) \<Rightarrow> notification_loop str fl bs (s2\<lparr>callback_lock := False\<rparr>)
             | (Raises e2, s2) \<Rightarrow> (Died e2, s2)
             | (Blocks, s2) \<Rightarrow> (Stuck, s2))))
    \<and> (\<not> is_Exception e \<longrightarrow>
        process_one_notification str (Some secs) i fl =
          (Raises e,
           fl\<lparr>sessions := (sessions fl)(get_session_id i fl \<mapsto>
             s\<lparr>notification_queue := q, user := u'\<rparr>)\<rparr>))"
proof -
  have esc: "process_one_notification str (Some secs) i fl =
          (Raises e,
           fl\<lparr>sessions := (sessions fl)(get_session_id i fl \<mapsto>
             s\<lparr>notification_queue := q, user := u'\<rparr>)\<rparr>)"
    if "\<not> is_Exception e"
    using consume_notification_escapes [OF assms(4) assms(3) assms(2) assms(5-8) that]
    by (simp add: process_one_notification_found [OF assms(1)])
  show ?thesis
    using handler_Exception_logged [OF assms, of str] esc by blast
qed

theorem handler_exception_contained_witness:
  "fst (process_one_notification (\<lambda>e. ''error'') (Some (1 / 20)) 0 raising_client) = Returns True
   \<and> map_option user (sessions (snd (process_one_notification (\<lambda>e. ''error'') (Some (1 / 20)) 0
        raising_client)) 7) = Some [JStr ''a'']
   \<and> map_option listen_notifications (sessions (snd (process_one_notification (\<lambda>e. ''error'')
        (Some (1 / 20)) 0 raising_client)) 7) = Some True
   \<and> process_one_notification (\<lambda>e. ''error'') (Some (1 / 20)) 0
        (snd (process_one_notification (\<lambda>e. ''error'') (Some (1 / 20)) 0 raising_client)) =
      (Returns True,
       raising_client\<lparr>sessions := (sessions raising_client)(7 \<mapsto>
         raising_session\<lparr>notification_queue := [], user := [JStr ''a'', JStr ''b''],
           LOG := [Log DEBUG ''Error: %s'' (JStr ''error'')]\<rparr>)\<rparr>)"
proof -
  have t: "(0 :: rat) \<le> 1 / 20" by simp
  have l1: "\<not> callback_lock raising_session"
    by (simp add: raising_session_def start_notification_loop_def Session_init_def)
  have q: "notification_queue raising_session = message_event ''a'' # [org_event ''b'']"
    by (simp add: raising_session_def)
  have ty: "py_getitem (message_event ''a'') ''type'' = Inr (JStr ''message'')"
    by (simp add: message_event_def)
  have da: "py_getitem (message_event ''a'') ''data'' = Inr (JStr ''a'')"
    by (simp add: message_event_def)
  have cb: "callbacks raising_session ''message'' = Some raise_error"
    by (simp add: raising_session_def)
  have r: "raise_error (JStr ''message'') (JStr ''a'') (user raising_session) =
      (Some (UserError ''callback failed''), [JStr ''a''])"
    by (simp add: raise_error_def raising_session_def start_notification_loop_def Session_init_def)
  have x: "is_Exception (UserError ''callback failed'')" by simp
  have ty2: "py_getitem (org_event ''b'') ''type'' = Inr (JStr ''org'')"
    by (simp add: org_event_def)
  have da2: "py_getitem (org_event ''b'') ''data'' = Inr (JStr ''b'')"
    by (simp add: org_event_def)
  have cb2: "callbacks raising_session ''org'' = Some record_data"
    by (simp add: raising_session_def)
  have r2: "record_data (JStr ''org'') (JStr ''b'') [JStr ''a''] = (None, [JStr ''a'', JStr ''b''])"
    by (simp add: record_data_def)
  have k: "get_session_id 0 raising_client = 7"
    by (simp add: get_session_id_def raising_client_def two_sessions_def)
  have li: "listen_notifications raising_session"
    by (simp add: raising_session_def start_notification_loop_def)
  have lo: "LOG raising_session = []"
    by (simp add: raising_session_def start_notification_loop_def Session_init_def)
  note h = handler_exception_contained [OF raising_client_session l1 t q ty da cb r,
      of "\<lambda>e. ''error''", THEN conjunct1, THEN mp, OF x]
  from h have a: "process_one_notification (\<lambda>e. ''error'') (Some (1 / 20)) 0 raising_client =
      (Returns True,
       raising_client\<lparr>sessions := (sessions raising_client)(get_session_id 0 raising_client \<mapsto>
         raising_session\<lparr>notification_queue := [org_event ''b''], user := [JStr ''a''],
           LOG := LOG raising_session @ [Log DEBUG ''Error: %s'' (JStr ''error'')]\<rparr>)\<rparr>)"
    by (rule conjunct1)
  from h ty2 da2 cb2 r2
  have b: "process_one_notification (\<lambda>e. ''error'') (Some (1 / 20)) 0
        (snd (process_one_notification (\<lambda>e. ''error'') (Some (1 / 20)) 0 raising_client)) =
      (Returns True,
       raising_client\<lparr>sessions := (sessions raising_client)(get_session_id 0 raising_client \<mapsto>
         raising_session\<lparr>notification_queue := [], user := [JStr ''a'', JStr ''b''],
           LOG := LOG raising_session @ [Log DEBUG ''Error: %s'' (JStr ''error'')]\<rparr>)\<rparr>)"
    by blast
  show ?thesis
    unfolding b unfolding a by (simp add: k li lo)
qed

text \<open>
  The claim as first stated fails: a callback that raises \<open>SystemExit\<close> makes
  \<open>process_one_notification\<close> raise it, with nothing logged.
\<close>

theorem handler_exit_counterexample:
  "fst (process_one_notification (\<lambda>e. ''error'') (Some (1 / 20)) 0 exiting_client)
     = Raises SystemExit
   \<and> map_option LOG
        (sessions (snd (process_one_notification (\<lambda>e. ''error'') (Some (1 / 20)) 0 exiting_client)) 7)
     = Some []
   \<and> map_option callback_lock
        (sessions (snd (process_one_notification (\<lambda>e. ''error'') (Some (1 / 20)) 0 exiting_client)) 7)
     = Some False"
proof -
  have k: "get_session_id 0 exiting_client = 7"
    by (simp add: get_session_id_def exiting_client_def two_sessions_def)
  have l: "LOG exiting_session = []" "\<not> callback_lock exiting_session"
    by (simp_all add: exiting_session_def start_notification_loop_def Session_init_def)
  show ?thesis
    by (simp add: exiting_client_raises k l)
qed

section \<open>The bounded queues\<close>

lemma type_tag_getitem: "type_tag e = Some t \<Longrightarrow> py_getitem e ''type'' = Inr (JStr t)"
  by (cases e) (auto split: option.splits json.splits)

lemma payload_getitem: "payload e = Some d \<Longrightarrow> py_getitem e ''data'' = Inr d"
  by (cases e) auto

lemma registered_change_tagged:
  "type_tag e = Some t \<Longrightarrow> registered_change e cbs = Inr (cbs t \<noteq> None)"
  by (cases e) (auto simp add: registered_change_def split: option.splits json.splits)

lemma queue_change_discards:
  "type_tag e = Some t \<Longrightarrow> callbacks s t = None \<Longrightarrow> queue_change e s = (Returns (), s)"
  by (simp add: queue_change_def registered_change_tagged)

lemma queue_change_puts:
  "type_tag e = Some t \<Longrightarrow> callbacks s t = Some cb \<Longrightarrow>
   length (notification_queue s) \<le> MAX_QUEUE_SIZE \<Longrightarrow>
   queue_change e s = (Returns (), s\<lparr>notification_queue := notification_queue s @ [e]\<rparr>)"
  by (simp add: queue_change_def registered_change_tagged)

lemma queue_change_evicts:
  "type_tag e = Some t \<Longrightarrow> callbacks s t = Some cb \<Longrightarrow>
   length (notification_queue s) > MAX_QUEUE_SIZE \<Longrightarrow>
   notification_queue s = n # rest \<Longrightarrow> payload n = Some d \<Longrightarrow>
   queue_change e s =
     (Returns (),
      s\<lparr>notification_queue := rest @ [e],
        LOG := LOG s @ [Log WARN ''Notification queue is full: ignoring notification %s'' d]\<rparr>)"
  by (simp add: queue_change_def registered_change_tagged payload_getitem)

text \<open>What one turn of the loop of \<open>_queue_changes\<close> does with an event, field by field.\<close>

lemma queue_change_event:
  assumes "type_tag e \<noteq> None" and "\<forall>n \<in> set (notification_queue s). payload n \<noteq> None"
  shows "fst (queue_change e s) = Returns ()"
    and "notification_queue (snd (queue_change e s)) =
      (if deliverable (callbacks s) e then put_drop_oldest (notification_queue s) e
       else notification_queue s)"
    and "callbacks (snd (queue_change e s)) = callbacks s"
    and "callback_lock (snd (queue_change e s)) = callback_lock s"
    and "listen_notifications (snd (queue_change e s)) = listen_notifications s"
    and "error_queue (snd (queue_change e s)) = error_queue s"
    and "user (snd (queue_change e s)) = user s"
    and "sid (snd (queue_change e s)) = sid s"
proof -
  obtain t where t: "type_tag e = Some t" using assms(1) by auto
  consider (none) "callbacks s t = None"
    | (short) cb where "callbacks s t = Some cb" "length (notification_queue s) \<le> MAX_QUEUE_SIZE"
    | (full) cb n rest d where "callbacks s t = Some cb" "length (notification_queue s) > MAX_QUEUE_SIZE"
        "notification_queue s = n # rest" "payload n = Some d"
  proof (cases "callbacks s t")
    case None
    then show ?thesis using none by simp
  next
    case (Some cb)
    show ?thesis
    proof (cases "length (notification_queue s) \<le> MAX_QUEUE_SIZE")
      case True
      then show ?thesis using short Some by simp
    next
      case False
      then obtain n rest where q: "notification_queue s = n # rest"
        by (cases "notification_queue s") (auto simp add: MAX_QUEUE_SIZE_def)
      then obtain d where "payload n = Some d" using assms(2) by auto
      then show ?thesis using full Some False q by simp
    qed
  qed
  then have "fst (queue_change e s) = Returns ()
    \<and> notification_queue (snd (queue_change e s)) =
      (if deliverable (callbacks s) e then put_drop_oldest (notification_queue s) e
       else notification_queue s)
    \<and> callbacks (snd (queue_change e s)) = callbacks s
    \<and> callback_lock (snd (queue_change e s)) = callback_lock s
    \<and> listen_notifications (snd (queue_change e s)) = listen_notifications s
    \<and> error_queue (snd (queue_change e s)) = error_queue s
    \<and> user (snd (queue_change e s)) = user s
    \<and> sid (snd (queue_change e s)) = sid s"
  proof cases
    case none
    then show ?thesis using t by (simp add: queue_change_discards deliverable_def)
  next
    case short
    then show ?thesis using t
      by (simp add: queue_change_puts [OF t short(1) short(2)] deliverable_def put_drop_oldest_def)
  next
    case full
    then show ?thesis using t
      by (simp add: queue_change_evicts [OF t full(1) full(2) full(3) full(4)]
          deliverable_def put_drop_oldest_def)
  qed
  then show "fst (queue_change e s) = Returns ()"
    and "notification_queue (snd (queue_change e s)) =
      (if deliverable (callbacks s) e then put_drop_oldest (notification_queue s) e
       else notification_queue s)"
    and "callbacks (snd (queue_change e s)) = callbacks s"
    and "callback_lock (snd (queue_change e s)) = callback_lock s"
    and "listen_notifications (snd (queue_change e s)) = listen_notifications s"
    and "error_queue (snd (queue_change e s)) = error_queue s"
    and "user (snd (queue_change e s)) = user s"
    and "sid (snd (queue_change e s)) = sid s"
    by simp_all
qed

lemma set_put_drop_oldest: "set (put_drop_oldest q x) \<subseteq> insert x (set q)"
  by (cases q) (auto simp add: put_drop_oldest_def)

lemma for_changes_events:
  assumes "\<forall>e \<in> set es. type_tag e \<noteq> None \<and> payload e \<noteq> None"
    and "\<forall>n \<in> set (notification_queue s). payload n \<noteq> None"
  shows "fst (for_changes es s) = Returns ()
    \<and> notification_queue (snd (for_changes es s)) =
        foldl put_drop_oldest (notification_queue s) (filter (deliverable (callbacks s)) es)
    \<and> callbacks (snd (for_changes es s)) = callbacks s
    \<and> callback_lock (snd (for_changes es s)) = callback_lock s
    \<and> listen_notifications (snd (for_changes es s)) = listen_notifications s
    \<and> error_queue (snd (for_changes es s)) = error_queue s
    \<and> user (snd (for_changes es s)) = user s
    \<and> sid (snd (for_changes es s)) = sid s"
  using assms
proof (induction es arbitrary: s)
  case Nil
  then show ?case by simp
next
  case (Cons e es)
  have e: "type_tag e \<noteq> None" "payload e \<noteq> None" using Cons.prems(1) by simp_all
  note q = queue_change_event [OF e(1) Cons.prems(2)]
  obtain s' where s': "queue_change e s = (Returns (), s')"
    using q(1) by (cases "queue_change e s") auto
  have inv: "\<forall>n \<in> set (notification_queue s'). payload n \<noteq> None"
    using q(2) s' e(2) Cons.prems(2) set_put_drop_oldest [of "notification_queue s" e]
    by (auto split: if_splits)
  have rest: "\<forall>e \<in> set es. type_tag e \<noteq> None \<and> payload e \<noteq> None"
    using Cons.prems(1) by simp
  note ih = Cons.IH [OF rest inv]
  have f: "for_changes (e # es) s = for_changes es s'" using s' by simp
  show ?case
    unfolding f using ih q s' by (simp split: if_splits)
qed

lemma put_drop_oldest_drop:
  "put_drop_oldest q x = drop (length q + 1 - 129) (q @ [x])" if "length q \<le> 129"
proof (cases "length q \<le> 128")
  case True
  then show ?thesis by (simp add: put_drop_oldest_def MAX_QUEUE_SIZE_def)
next
  case False
  then have l: "length q = 129" using that by simp
  then obtain a list where q: "q = a # list" by (cases q) auto
  have "length q + 1 - 129 = Suc 0" using l by simp
  then show ?thesis using l q by (simp add: put_drop_oldest_def MAX_QUEUE_SIZE_def)
qed

lemma length_put_drop_oldest:
  "length q \<le> 129 \<Longrightarrow> length (put_drop_oldest q x) \<le> 129"
  by (auto simp add: put_drop_oldest_def MAX_QUEUE_SIZE_def)

lemma foldl_put_drop_oldest:
  "length q \<le> 129 \<Longrightarrow>
   foldl put_drop_oldest q xs = drop (length q + length xs - 129) (q @ xs)"
proof (induction xs arbitrary: q)
  case Nil
  then show ?case by simp
next
  case (Cons x xs)
  let ?k = "length q + 1 - 129"
  have p: "put_drop_oldest q x = drop ?k (q @ [x])"
    using Cons.prems by (rule put_drop_oldest_drop)
  have l: "length (put_drop_oldest q x) \<le> 129"
    using Cons.prems by (rule length_put_drop_oldest)
  have "foldl put_drop_oldest q (x # xs) = foldl put_drop_oldest (put_drop_oldest q x) xs"
    by simp
  also have "\<dots> = drop (length (put_drop_oldest q x) + length xs - 129) (put_drop_oldest q x @ xs)"
    using l by (rule Cons.IH)
  also have "put_drop_oldest q x @ xs = drop ?k (q @ x # xs)"
    using Cons.prems by (simp add: p)
  also have "length (put_drop_oldest q x) = length q + 1 - ?k"
    by (simp add: p)
  also have "drop (length q + 1 - ?k + length xs - 129) (drop ?k (q @ x # xs)) =
      drop (length q + length (x # xs) - 129) (q @ x # xs)"
  proof -
    have "length q + 1 - ?k + length xs - 129 + ?k = length q + length (x # xs) - 129"
      using Cons.prems by simp
    then show ?thesis by (simp only: drop_drop)
  qed
  finally show ?case .
qed

lemma queue_error_put: "error_queue (queue_error x s) = put_drop_oldest (error_queue s) x"
  by (simp add: queue_error_queue put_drop_oldest_def)

lemma foldl_queue_error:
  "error_queue (foldl (\<lambda>s x. queue_error x s) s xs) = foldl put_drop_oldest (error_queue s) xs"
  by (induction xs arbitrary: s) (simp_all add: queue_error_put)

lemma errors_pushed:
  "length (error_queue s) \<le> 129 \<Longrightarrow>
   error_queue (foldl (\<lambda>s x. queue_error x s) s xs) =
     drop (length (error_queue s) + length xs - 129) (error_queue s @ xs)"
  by (simp add: foldl_queue_error foldl_put_drop_oldest)

lemma notifications_pushed:
  assumes "\<forall>e \<in> set es. deliverable (callbacks s) e \<and> payload e \<noteq> None"
    and "\<forall>n \<in> set (notification_queue s). payload n \<noteq> None"
    and "length (notification_queue s) \<le> 129"
  shows "fst (queue_changes (JArr es) s) = Returns ()"
    and "notification_queue (snd (queue_changes (JArr es) s)) =
      drop (length (notification_queue s) + length es - 129) (notification_queue s @ es)"
proof -
  have t: "\<forall>e \<in> set es. type_tag e \<noteq> None \<and> payload e \<noteq> None"
    using assms(1) by (auto simp add: deliverable_def split: option.splits)
  have f: "filter (deliverable (callbacks s)) es = es"
    using assms(1) by (simp add: filter_id_conv)
  note c = for_changes_events [OF t assms(2)]
  show "fst (queue_changes (JArr es) s) = Returns ()"
    using c by (simp add: queue_changes_def)
  show "notification_queue (snd (queue_changes (JArr es) s)) =
      drop (length (notification_queue s) + length es - 129) (notification_queue s @ es)"
    using c assms(3) by (simp add: queue_changes_def f foldl_put_drop_oldest)
qed

text \<open>
  C1, as the code has it. The check is \<open>qsize() > 128\<close>: a push that finds more than 128
  items takes the oldest one out, logs it and puts the new item at the end; a push that
  finds 128 or fewer only puts. So pushing more than 129 items on an empty queue leaves the
  last 129 pushed, in their order. This holds for the error queue, whose push cannot
  fail, and for the notification queue when the events pushed are deliverable and carry
  data, in which case the push returns.
\<close>

theorem queues_keep_last_129:
  "(length (error_queue s) > 128 \<longrightarrow>
      error_queue (queue_error x s) = tl (error_queue s) @ [x]
      \<and> LOG (queue_error x s) =
          LOG s @ [Log WARN ''Error queue is full: ignoring error %s'' (JStr (hd (error_queue s)))])
   \<and> (length (error_queue s) \<le> 128 \<longrightarrow>
        queue_error x s = s\<lparr>error_queue := error_queue s @ [x]\<rparr>)
   \<and> (error_queue s = [] \<and> length xs > 129 \<longrightarrow>
        error_queue (foldl (\<lambda>s x. queue_error x s) s xs) = drop (length xs - 129) xs
        \<and> length (error_queue (foldl (\<lambda>s x. queue_error x s) s xs)) = 129)
   \<and> (deliverable (callbacks s) e \<and> length (notification_queue s) > 128
        \<and> payload (hd (notification_queue s)) = Some d \<longrightarrow>
        queue_change e s =
          (Returns (),
           s\<lparr>notification_queue := tl (notification_queue s) @ [e],
             LOG := LOG s @ [Log WARN ''Notification queue is full: ignoring notification %s'' d]\<rparr>))
   \<and> (deliverable (callbacks s) e \<and> length (notification_queue s) \<le> 128 \<longrightarrow>
        queue_change e s = (Returns (), s\<lparr>notification_queue := notification_queue s @ [e]\<rparr>))
   \<and> (notification_queue s = [] \<and> length es > 129
        \<and> (\<forall>e \<in> set es. deliverable (callbacks s) e \<and> payload e \<noteq> None) \<longrightarrow>
        fst (queue_changes (JArr es) s) = Returns ()
        \<and> notification_queue (snd (queue_changes (JArr es) s)) = drop (length es - 129) es
        \<and> length (notification_queue (snd (queue_changes (JArr es) s))) = 129)"
proof -
  have e1: "error_queue (queue_error x s) = tl (error_queue s) @ [x]
      \<and> LOG (queue_error x s) =
          LOG s @ [Log WARN ''Error queue is full: ignoring error %s'' (JStr (hd (error_queue s)))]"
    if "length (error_queue s) > 128"
    using that by (cases "error_queue s") (simp_all add: queue_error_def MAX_QUEUE_SIZE_def)
  have e2: "queue_error x s = s\<lparr>error_queue := error_queue s @ [x]\<rparr>"
    if "length (error_queue s) \<le> 128"
    using that by (simp add: queue_error_def MAX_QUEUE_SIZE_def)
  have e3: "error_queue (foldl (\<lambda>s x. queue_error x s) s xs) = drop (length xs - 129) xs
        \<and> length (error_queue (foldl (\<lambda>s x. queue_error x s) s xs)) = 129"
    if "error_queue s = []" "length xs > 129"
    using that errors_pushed [of s xs] by simp
  have n1: "queue_change e s =
          (Returns (),
           s\<lparr>notification_queue := tl (notification_queue s) @ [e],
             LOG := LOG s @ [Log WARN ''Notification queue is full: ignoring notification %s'' d]\<rparr>)"
    if h: "deliverable (callbacks s) e" "length (notification_queue s) > 128"
      "payload (hd (notification_queue s)) = Some d"
  proof -
    obtain t cb where t: "type_tag e = Some t" "callbacks s t = Some cb"
      using h(1) by (auto simp add: deliverable_def split: option.splits)
    obtain n rest where q: "notification_queue s = n # rest"
      using h(2) by (cases "notification_queue s") auto
    have m: "length (notification_queue s) > MAX_QUEUE_SIZE"
      using h(2) by (simp add: MAX_QUEUE_SIZE_def)
    have p: "payload n = Some d" using h(3) q by simp
    show ?thesis using queue_change_evicts [OF t m q p] q by simp
  qed
  have n2: "queue_change e s = (Returns (), s\<lparr>notification_queue := notification_queue s @ [e]\<rparr>)"
    if h: "deliverable (callbacks s) e" "length (notification_queue s) \<le> 128"
  proof -
    obtain t cb where t: "type_tag e = Some t" "callbacks s t = Some cb"
      using h(1) by (auto simp add: deliverable_def split: option.splits)
    have m: "length (notification_queue s) \<le> MAX_QUEUE_SIZE"
      using h(2) by (simp add: MAX_QUEUE_SIZE_def)
    show ?thesis using queue_change_puts [OF t m] .
  qed
  have n3: "fst (queue_changes (JArr es) s) = Returns ()
        \<and> notification_queue (snd (queue_changes (JArr es) s)) = drop (length es - 129) es
        \<and> length (notification_queue (snd (queue_changes (JArr es) s))) = 129"
    if "notification_queue s = []" "length es > 129"
      "\<forall>e \<in> set es. deliverable (callbacks s) e \<and> payload e \<noteq> None"
    using that notifications_pushed [of es s] by simp
  show ?thesis using e1 e2 e3 n1 n2 n3 by blast
qed

theorem queues_keep_last_129_witness:
  "length (''first'' # replicate 129 ''later'') > 129
   \<and> error_queue (foldl (\<lambda>s x. queue_error x s) listening_session
        (''first'' # replicate 129 ''later'')) = replicate 129 ''later''
   \<and> fst (queue_changes (JArr (message_event ''first'' # replicate 129 (message_event ''later'')))
        listening_session) = Returns ()
   \<and> notification_queue (snd (queue_changes
        (JArr (message_event ''first'' # replicate 129 (message_event ''later''))) listening_session))
      = replicate 129 (message_event ''later'')"
proof -
  have a: "error_queue listening_session = []" "notification_queue listening_session = []"
    by (simp_all add: listening_session_def start_notification_loop_def Session_init_def)
  have d: "deliverable (callbacks listening_session) (message_event x)" for x
    by (simp add: deliverable_def listening_session_def message_event_def)
  have p: "payload (message_event x) \<noteq> None" for x
    by (simp add: message_event_def)
  have es: "\<forall>e \<in> set (message_event ''first'' # replicate 129 (message_event ''later'')).
      deliverable (callbacks listening_session) e \<and> payload e \<noteq> None"
    using d p by auto
  have l: "length (''first'' # replicate 129 ''later'') > 129"
    "length (message_event ''first'' # replicate 129 (message_event ''later'')) > 129"
    by simp_all
  show ?thesis
    using queues_keep_last_129 [of listening_session "''x''" "''first'' # replicate 129 ''later''"
        "message_event ''x''" JNull "message_event ''first'' # replicate 129 (message_event ''later'')"]
      a es l
    by simp
qed

text \<open>
  The claim as first stated fails: after 130 errors pushed on an empty queue it holds 129
  of them, not 128, and a push that finds exactly 128 items evicts none.
\<close>

theorem queue_size_counterexample:
  "length (error_queue (foldl (\<lambda>s x. queue_error x s) listening_session
      (replicate 130 ''connection reset''))) = 129
   \<and> error_queue (queue_error ''new'' (listening_session\<lparr>error_queue := replicate 128 ''old''\<rparr>))
      = replicate 128 ''old'' @ [''new'']"
proof -
  have a: "length (error_queue listening_session) \<le> 129" "error_queue listening_session = []"
    by (simp_all add: listening_session_def start_notification_loop_def Session_init_def)
  have "error_queue (foldl (\<lambda>s x. queue_error x s) listening_session
      (replicate 130 ''connection reset'')) =
      drop (length (error_queue listening_session) + length (replicate 130 ''connection reset'') - 129)
        (error_queue listening_session @ replicate 130 ''connection reset'')"
    using a(1) by (rule errors_pushed)
  then have "length (error_queue (foldl (\<lambda>s x. queue_error x s) listening_session
      (replicate 130 ''connection reset''))) = 129"
    by (simp add: a(2))
  moreover have "error_queue (queue_error ''new''
      (listening_session\<lparr>error_queue := replicate 128 ''old''\<rparr>)) = replicate 128 ''old'' @ [''new'']"
    by (simp add: queue_error_queue MAX_QUEUE_SIZE_def)
  ultimately show ?thesis by simp
qed

section \<open>Enqueueing and registration\<close>

lemma notification_loop_turn:
  assumes "listen_notifications s" and "\<not> callback_lock s"
    and "wait_for_notification (sid s) None fl (wait_post b) = Returns changes"
    and "fst (queue_changes changes (s\<lparr>callback_lock := True\<rparr>)) = Returns ()"
    and "listen_notifications (snd (queue_changes changes (s\<lparr>callback_lock := True\<rparr>)))"
  shows "notification_loop str fl [b] s =
    (Waiting, (snd (queue_changes changes (s\<lparr>callback_lock := True\<rparr>)))\<lparr>callback_lock := False\<rparr>)"
  using assms
  by (cases "queue_changes changes (s\<lparr>callback_lock := True\<rparr>)") simp

lemma queue_changes_single: "type_tag e \<noteq> None \<Longrightarrow> queue_changes e s = queue_change e s"
  by (cases e) (auto simp add: queue_changes_def split: prod.splits outcome.splits)

lemma register_callback_free:
  "\<not> callback_lock s \<Longrightarrow>
   register_callback n cb s = (Returns (), s\<lparr>callbacks := (callbacks s)(n \<mapsto> cb)\<rparr>)"
  by (simp add: register_callback_def)

text \<open>One turn of the poller that brings a single event.\<close>

lemma notification_loop_event:
  assumes "listen_notifications s" and "\<not> callback_lock s"
    and "wait_for_notification (sid s) None fl (wait_post b) = Returns e"
    and "type_tag e = Some t"
    and "\<forall>n \<in> set (notification_queue s). payload n \<noteq> None"
  shows "fst (notification_loop str fl [b] s) = Waiting"
    and "notification_queue (snd (notification_loop str fl [b] s)) =
      (if callbacks s t \<noteq> None then put_drop_oldest (notification_queue s) e
       else notification_queue s)"
    and "callbacks s t = None \<Longrightarrow> notification_loop str fl [b] s = (Waiting, s)"
proof -
  let ?s = "s\<lparr>callback_lock := True\<rparr>"
  have tt: "type_tag e \<noteq> None" using assms(4) by simp
  have pq: "\<forall>n \<in> set (notification_queue ?s). payload n \<noteq> None" using assms(5) by simp
  note q = queue_change_event [OF tt pq]
  have r: "fst (queue_changes e ?s) = Returns ()"
    using q(1) by (simp add: queue_changes_single [OF tt])
  have l: "listen_notifications (snd (queue_changes e ?s))"
    using q(5) assms(1) by (simp add: queue_changes_single [OF tt])
  note n = notification_loop_turn [OF assms(1) assms(2) assms(3) r l, of str]
  show "fst (notification_loop str fl [b] s) = Waiting" using n by simp
  show "notification_queue (snd (notification_loop str fl [b] s)) =
      (if callbacks s t \<noteq> None then put_drop_oldest (notification_queue s) e
       else notification_queue s)"
    using n q(2) assms(4) by (simp add: queue_changes_single [OF tt] deliverable_def)
  show "notification_loop str fl [b] s = (Waiting, s)" if "callbacks s t = None"
  proof -
    have "queue_change e ?s = (Returns (), ?s)"
      using assms(4) that by (simp add: queue_change_discards)
    then show ?thesis using n assms(2) by (simp add: queue_changes_single [OF tt])
  qed
qed

text \<open>One turn of the poller that brings a list of events.\<close>

lemma notification_loop_events:
  assumes "listen_notifications s" and "\<not> callback_lock s"
    and "wait_for_notification (sid s) None fl (wait_post b) = Returns (JArr es)"
    and "\<forall>x \<in> set es. type_tag x \<noteq> None \<and> payload x \<noteq> None"
    and "\<forall>n \<in> set (notification_queue s). payload n \<noteq> None"
  shows "fst (notification_loop str fl [b] s) = Waiting"
    and "notification_queue (snd (notification_loop str fl [b] s)) =
      foldl put_drop_oldest (notification_queue s) (filter (deliverable (callbacks s)) es)"
proof -
  let ?s = "s\<lparr>callback_lock := True\<rparr>"
  have pq: "\<forall>n \<in> set (notification_queue ?s). payload n \<noteq> None" using assms(5) by simp
  note c = for_changes_events [OF assms(4) pq]
  have q: "queue_changes (JArr es) ?s = for_changes es ?s" by (simp add: queue_changes_def)
  have r: "fst (queue_changes (JArr es) ?s) = Returns ()" using c by (simp add: q)
  have l: "listen_notifications (snd (queue_changes (JArr es) ?s))"
    using c assms(1) by (simp add: q)
  note n = notification_loop_turn [OF assms(1) assms(2) assms(3) r l, of str]
  show "fst (notification_loop str fl [b] s) = Waiting" using n by simp
  show "notification_queue (snd (notification_loop str fl [b] s)) =
      foldl put_drop_oldest (notification_queue s) (filter (deliverable (callbacks s)) es)"
    using n c by (simp add: q)
qed

text \<open>
  C2. Let the poller of a session run with the lock free, the queued events carrying data,
  and its wait call return an event of type \<open>t\<close>. If \<open>t\<close> has a callback at that moment
  the event is put on the notification queue; if it has none, the session is left exactly
  as it was, and registering a callback for \<open>t\<close> afterwards leaves the queue without the
  event. Had the callback been registered before, the same event would have been queued.
  When the wait call returns a list of events, the queue receives those whose type has a
  callback, in their order, and no other.
\<close>

theorem enqueued_iff_registered:
  assumes "listen_notifications s" and "\<not> callback_lock s"
    and "\<forall>n \<in> set (notification_queue s). payload n \<noteq> None"
  shows "(\<forall>e t. wait_for_notification (sid s) None fl (wait_post b) = Returns e
            \<and> type_tag e = Some t \<longrightarrow>
          fst (notification_loop str fl [b] s) = Waiting
          \<and> (callbacks s t \<noteq> None \<longrightarrow>
               notification_queue (snd (notification_loop str fl [b] s)) =
                 put_drop_oldest (notification_queue s) e)
          \<and> (callbacks s t = None \<longrightarrow>
               notification_loop str fl [b] s = (Waiting, s)
               \<and> notification_queue
                    (snd (register_callback t cb (snd (notification_loop str fl [b] s))))
                   = notification_queue s)
          \<and> fst (notification_loop str fl [b] (snd (register_callback t cb s))) = Waiting
          \<and> notification_queue
               (snd (notification_loop str fl [b] (snd (register_callback t cb s)))) =
               put_drop_oldest (notification_queue s) e)
    \<and> (\<forall>es. wait_for_notification (sid s) None fl (wait_post b) = Returns (JArr es)
            \<and> (\<forall>x \<in> set es. type_tag x \<noteq> None \<and> payload x \<noteq> None) \<longrightarrow>
          fst (notification_loop str fl [b] s) = Waiting
          \<and> notification_queue (snd (notification_loop str fl [b] s)) =
               foldl put_drop_oldest (notification_queue s)
                 (filter (deliverable (callbacks s)) es))"
proof -
  have single: "fst (notification_loop str fl [b] s) = Waiting
          \<and> (callbacks s t \<noteq> None \<longrightarrow>
               notification_queue (snd (notification_loop str fl [b] s)) =
                 put_drop_oldest (notification_queue s) e)
          \<and> (callbacks s t = None \<longrightarrow>
               notification_loop str fl [b] s = (Waiting, s)
               \<and> notification_queue
                    (snd (register_callback t cb (snd (notification_loop str fl [b] s))))
                   = notification_queue s)
          \<and> fst (notification_loop str fl [b] (snd (register_callback t cb s))) = Waiting
          \<and> notification_queue
               (snd (notification_loop str fl [b] (snd (register_callback t cb s)))) =
               put_drop_oldest (notification_queue s) e"
    if w: "wait_for_notification (sid s) None fl (wait_post b) = Returns e"
      and t: "type_tag e = Some t" for e t
  proof -
    let ?r = "s\<lparr>callbacks := (callbacks s)(t \<mapsto> cb)\<rparr>"
    note a = notification_loop_event [OF assms(1) assms(2) w t assms(3), of str]
    have r: "register_callback t cb s = (Returns (), ?r)"
      using assms(2) by (rule register_callback_free)
    have r1: "listen_notifications ?r" "\<not> callback_lock ?r"
      "wait_for_notification (sid ?r) None fl (wait_post b) = Returns e"
      "\<forall>n \<in> set (notification_queue ?r). payload n \<noteq> None"
      using assms w by simp_all
    note b = notification_loop_event [OF r1(1) r1(2) r1(3) t r1(4), of str]
    show ?thesis
      using a b by (simp add: r)
  qed
  have batch: "fst (notification_loop str fl [b] s) = Waiting
          \<and> notification_queue (snd (notification_loop str fl [b] s)) =
               foldl put_drop_oldest (notification_queue s)
                 (filter (deliverable (callbacks s)) es)"
    if w: "wait_for_notification (sid s) None fl (wait_post b) = Returns (JArr es)"
      and t: "\<forall>x \<in> set es. type_tag x \<noteq> None \<and> payload x \<noteq> None" for es
    using notification_loop_events [OF assms(1) assms(2) w t assms(3), of str] by simp
  show ?thesis using single batch by blast
qed

theorem enqueued_iff_registered_witness:
  "notification_loop (\<lambda>e. ''error'') two_sessions [answers (message_event ''a'')] plain_session
     = (Waiting, plain_session)
   \<and> notification_queue (snd (register_callback ''message'' record_data
        (snd (notification_loop (\<lambda>e. ''error'') two_sessions [answers (message_event ''a'')]
          plain_session)))) = []
   \<and> notification_queue (snd (notification_loop (\<lambda>e. ''error'') two_sessions
        [answers (message_event ''b'')]
        (snd (register_callback ''message'' record_data plain_session)))) = [message_event ''b'']
   \<and> notification_queue (snd (notification_loop (\<lambda>e. ''error'') two_sessions
        [answers (JArr [org_event ''c'', message_event ''d''])] listening_session))
      = [message_event ''d'']"
proof -
  have l: "listen_notifications plain_session" "\<not> callback_lock plain_session"
    "\<forall>n \<in> set (notification_queue plain_session). payload n \<noteq> None"
    "callbacks plain_session ''message'' = None" "notification_queue plain_session = []"
    by (simp_all add: plain_session_def start_notification_loop_def Session_init_def)
  have w: "wait_for_notification (sid plain_session) None two_sessions
      (wait_post (answers (message_event x))) = Returns (message_event x)" for x
    by (simp add: wait_for_notification_def run_def http_outcome_def run_response_def
        check_Error_def answers_def)
  have t: "type_tag (message_event x) = Some ''message''" for x
    by (simp add: message_event_def)
  have l2: "listen_notifications listening_session" "\<not> callback_lock listening_session"
    "\<forall>n \<in> set (notification_queue listening_session). payload n \<noteq> None"
    "notification_queue listening_session = []"
    by (simp_all add: listening_session_def start_notification_loop_def Session_init_def)
  have w2: "wait_for_notification (sid listening_session) None two_sessions
      (wait_post (answers (JArr [org_event ''c'', message_event ''d''])))
      = Returns (JArr [org_event ''c'', message_event ''d''])"
    by (simp add: wait_for_notification_def run_def http_outcome_def run_response_def
        check_Error_def answers_def)
  have t2: "\<forall>x \<in> set [org_event ''c'', message_event ''d'']. type_tag x \<noteq> None \<and> payload x \<noteq> None"
    by (simp add: message_event_def org_event_def)
  have f: "filter (deliverable (callbacks listening_session)) [org_event ''c'', message_event ''d'']
      = [message_event ''d'']"
    by (simp add: deliverable_def listening_session_def message_event_def org_event_def)
  have p: "put_drop_oldest [] x = [x]" for x :: json
    by (simp add: put_drop_oldest_def)
  show ?thesis
    using
      enqueued_iff_registered [OF l(1) l(2) l(3), of two_sessions "answers (message_event ''a'')"
        "\<lambda>e. ''error''" record_data]
      enqueued_iff_registered [OF l(1) l(2) l(3), of two_sessions "answers (message_event ''b'')"
        "\<lambda>e. ''error''" record_data]
      enqueued_iff_registered [OF l2(1) l2(2) l2(3), of two_sessions
        "answers (JArr [org_event ''c'', message_event ''d''])" "\<lambda>e. ''error''" record_data]
      w t w2 t2 l(4) l(5) l2(4) f p
    by (simp del: notification_loop.simps add: register_callback_def)
qed

section \<open>The order of dispatch\<close>

lemma registered_client:
  "snd (Flow_register_callback ''message'' record_data 0 started_client) = queued [] []"
  by (simp add: Flow_register_callback_def on_session_def get_session_id_def started_client_def
      two_sessions_def register_callback_def plain_session_def queued_session_def queued_def
      start_notification_loop_def Session_init_def)

lemma wait_answers:
  "wait_for_notification i None fl (wait_post (answers e)) = Returns e"
  by (simp add: wait_for_notification_def run_def http_outcome_def run_response_def
      check_Error_def answers_def)

lemma loop_puts_message:
  assumes "length q \<le> 128"
  shows "notification_loop str fl (answers (message_event x) # bs) (queued_session q u) =
    notification_loop str fl bs (queued_session (q @ [message_event x]) u)"
proof -
  let ?s = "(queued_session q u)\<lparr>callback_lock := True\<rparr>"
  have t: "type_tag (message_event x) = Some ''message''" by (simp add: message_event_def)
  have c: "callbacks ?s ''message'' = Some record_data"
    by (simp add: queued_session_def)
  have l: "length (notification_queue ?s) \<le> MAX_QUEUE_SIZE"
    using assms by (simp add: MAX_QUEUE_SIZE_def queued_session_def)
  have q: "queue_changes (message_event x) ?s =
      (Returns (), ?s\<lparr>notification_queue := notification_queue ?s @ [message_event x]\<rparr>)"
    using queue_change_puts [OF t c l] by (simp add: queue_changes_single t)
  have e: "?s\<lparr>notification_queue := notification_queue ?s @ [message_event x],
        callback_lock := False\<rparr> = queued_session (q @ [message_event x]) u"
    by (simp add: queued_session_def)
  have f: "listen_notifications (queued_session q u)" "\<not> callback_lock (queued_session q u)"
    by (simp_all add: queued_session_def)
  have "notification_loop str fl (answers (message_event x) # bs) (queued_session q u) =
      notification_loop str fl bs
        (?s\<lparr>notification_queue := notification_queue ?s @ [message_event x],
            callback_lock := False\<rparr>)"
    using f by (simp add: wait_answers q)
  then show ?thesis by (simp only: e)
qed

lemma three_messages_queued:
  "three_messages str a b c = queued [message_event a, message_event b, message_event c] []"
proof -
  have s: "sessions (queued [] []) 7 = Some (queued_session [] [])"
    by (simp add: queued_def)
  have l: "listen_notifications (queued_session q u)" for q u
    by (simp add: queued_session_def)
  have "notification_loop str (queued [] [])
      [answers (message_event a), answers (message_event b), answers (message_event c)]
      (queued_session [] []) =
    (Waiting, queued_session [message_event a, message_event b, message_event c] [])"
    using l by (simp add: loop_puts_message del: notification_loop.simps(2))
  then show ?thesis
    by (simp add: three_messages_def registered_client notification_thread_def s)
      (simp add: queued_def)
qed

lemma process_one_queued:
  "process_one_notification str (Some (1 / 20)) 0 (queued (message_event x # q) u) =
     (Returns True, queued q (u @ [JStr x]))"
proof -
  let ?s = "queued_session (message_event x # q) u"
  have k: "sessions (queued (message_event x # q) u) (get_session_id 0 (queued (message_event x # q) u))
      = Some ?s"
    by (simp add: queued_def get_session_id_def started_client_def two_sessions_def)
  have "consume_notification str (Some (1 / 20)) ?s =
      (Returns True, ?s\<lparr>notification_queue := q, user := u @ [JStr x]\<rparr>)"
    by (rule consume_notification_returned [where x = "message_event x" and t = "''message''"
          and d = "JStr x" and cb = record_data])
      (simp_all add: queued_session_def message_event_def record_data_def)
  then have c: "consume_notification str (Some (1 / 20)) ?s =
      (Returns True, queued_session q (u @ [JStr x]))"
    by (simp add: queued_session_def)
  show ?thesis
    by (simp add: process_one_notification_found [OF k] c)
      (simp add: queued_def get_session_id_def started_client_def two_sessions_def)
qed

lemma process_one_queued_empty:
  "process_one_notification str (Some (1 / 20)) 0 (queued [] u) = (Returns False, queued [] u)"
proof -
  let ?s = "queued_session [] u"
  have k: "sessions (queued [] u) (get_session_id 0 (queued [] u)) = Some ?s"
    by (simp add: queued_def get_session_id_def started_client_def two_sessions_def)
  have c: "consume_notification str (Some (1 / 20)) ?s = (Returns False, ?s)"
    by (rule consume_notification_empty) (simp_all add: queued_session_def)
  show ?thesis
    by (simp add: process_one_notification_found [OF k] c)
      (simp add: queued_def get_session_id_def started_client_def two_sessions_def)
qed

lemma app_data_queued: "app_data (queued q u) = Some u"
  by (simp add: app_data_def queued_def queued_session_def)

lemma dispatch_fields:
  "notification_queue (snd (dispatch x s)) = notification_queue s"
  "callback_lock (snd (dispatch x s)) = callback_lock s"
  by (simp_all add: dispatch_def split: sum.splits bool.splits prod.splits)

lemma dispatch_user:
  "user (snd (dispatch x (s\<lparr>notification_queue := q, callback_lock := l\<rparr>))) = user (snd (dispatch x s))"
  by (simp add: dispatch_def split: sum.splits bool.splits prod.splits)

lemma consume_notification_head:
  assumes "notification_queue s = x # q" "0 \<le> secs" "\<not> callback_lock s"
  shows "notification_queue (snd (consume_notification str (Some secs) s)) = q"
    and "user (snd (consume_notification str (Some secs) s)) = user (snd (dispatch x s))"
proof -
  let ?s1 = "s\<lparr>notification_queue := q, callback_lock := True\<rparr>"
  obtain r s2 where d: "dispatch x ?s1 = (r, s2)" by (cases "dispatch x ?s1")
  have q2: "notification_queue s2 = q" using dispatch_fields(1) [where x = x and s = ?s1] d by simp
  have u2: "user s2 = user (snd (dispatch x s))" using dispatch_user [where x = x and s = s and q = q and l = True] d by simp
  show "notification_queue (snd (consume_notification str (Some secs) s)) = q"
    using assms d q2 by (cases r) (simp_all add: consume_notification_pop)
  show "user (snd (consume_notification str (Some secs) s)) = user (snd (dispatch x s))"
    using assms d u2 by (cases r) (simp_all add: consume_notification_pop)
qed

text \<open>
  C3. \<open>consume_notification\<close> takes the notification at the head of the queue, the oldest
  one, and dispatches it, leaving the rest in order. In the scenario, with a callback
  registered for \<open>message\<close> and the messages with data \<open>a\<close>, \<open>b\<close>, \<open>c\<close> received in that
  order, three calls of \<open>process_one_notification\<close> return \<open>True\<close> and hand \<open>a\<close>, then
  \<open>b\<close>, then \<open>c\<close> to the callback; the fourth call finds the queue empty, returns \<open>False\<close>
  and calls nothing.
\<close>

theorem three_messages_in_order:
  "(notification_queue s = x # q \<and> 0 \<le> secs \<and> \<not> callback_lock s \<longrightarrow>
      notification_queue (snd (consume_notification str (Some secs) s)) = q
      \<and> user (snd (consume_notification str (Some secs) s)) = user (snd (dispatch x s)))
   \<and> app_data (three_messages str a b c) = Some []
   \<and> fst (process_one_notification str (Some (1 / 20)) 0 (three_messages str a b c)) = Returns True
   \<and> app_data (snd (process_one_notification str (Some (1 / 20)) 0 (three_messages str a b c)))
       = Some [JStr a]
   \<and> fst (process_one_notification str (Some (1 / 20)) 0
        (snd (process_one_notification str (Some (1 / 20)) 0 (three_messages str a b c))))
       = Returns True
   \<and> app_data (snd (process_one_notification str (Some (1 / 20)) 0
        (snd (process_one_notification str (Some (1 / 20)) 0 (three_messages str a b c)))))
       = Some [JStr a, JStr b]
   \<and> fst (process_one_notification str (Some (1 / 20)) 0
        (snd (process_one_notification str (Some (1 / 20)) 0
          (snd (process_one_notification str (Some (1 / 20)) 0 (three_messages str a b c))))))
       = Returns True
   \<and> app_data (snd (process_one_notification str (Some (1 / 20)) 0
        (snd (process_one_notification str (Some (1 / 20)) 0
          (snd (process_one_notification str (Some (1 / 20)) 0 (three_messages str a b c)))))))
       = Some [JStr a, JStr b, JStr c]
   \<and> fst (process_one_notification str (Some (1 / 20)) 0
        (snd (process_one_notification str (Some (1 / 20)) 0
          (snd (process_one_notification str (Some (1 / 20)) 0
            (snd (process_one_notification str (Some (1 / 20)) 0 (three_messages str a b c))))))))
       = Returns False
   \<and> app_data (snd (process_one_notification str (Some (1 / 20)) 0
        (snd (process_one_notification str (Some (1 / 20)) 0
          (snd (process_one_notification str (Some (1 / 20)) 0
            (snd (process_one_notification str (Some (1 / 20)) 0 (three_messages str a b c)))))))))
       = Some [JStr a, JStr b, JStr c]"
  by (simp add: three_messages_queued process_one_queued process_one_queued_empty app_data_queued
      consume_notification_head)

theorem three_messages_in_order_witness:
  "fst (process_one_notification (\<lambda>e. ''error'') (Some (1 / 20)) 0
        (snd (process_one_notification (\<lambda>e. ''error'') (Some (1 / 20)) 0
          (snd (process_one_notification (\<lambda>e. ''error'') (Some (1 / 20)) 0
            (three_messages (\<lambda>e. ''error'') ''a'' ''b'' ''c'')))))) = Returns True
   \<and> app_data (snd (process_one_notification (\<lambda>e. ''error'') (Some (1 / 20)) 0
        (snd (process_one_notification (\<lambda>e. ''error'') (Some (1 / 20)) 0
          (snd (process_one_notification (\<lambda>e. ''error'') (Some (1 / 20)) 0
            (three_messages (\<lambda>e. ''error'') ''a'' ''b'' ''c'')))))))
       = Some [JStr ''a'', JStr ''b'', JStr ''c'']"
  using three_messages_in_order [where str = "\<lambda>e. ''error''" and a = "''a''" and b = "''b''"
      and c = "''c''" and s = plain_session and x = JNull and q = "[]" and secs = 0]
  by simp

section \<open>Resolution of the session identifier\<close>

lemma get_session_id_zero: "get_session_id 0 fl = current_session fl"
  by (simp add: get_session_id_def)

lemma get_session_id_current: "get_session_id (current_session fl) fl = current_session fl"
  by (simp add: get_session_id_def)

lemma get_session_id_nonzero: "current_session fl \<noteq> 0 \<Longrightarrow> get_session_id i fl \<noteq> 0"
  by (simp add: get_session_id_def)

lemma on_session_other: "k \<noteq> j \<Longrightarrow> sessions (snd (on_session k op fl)) j = sessions fl j"
  by (simp add: on_session_def split: option.splits prod.splits)

lemma get_notification_error_other:
  "get_session_id i fl \<noteq> j \<Longrightarrow> sessions (snd (get_notification_error t i fl)) j = sessions fl j"
  by (simp add: get_notification_error_def Let_def split: option.splits prod.splits outcome.splits)

lemma on_session_missing:
  "sessions fl k = None \<Longrightarrow> on_session k op fl = (Raises (KeyError (JNum k)), fl)"
  by (simp add: on_session_def)

lemma unregister_callback_free:
  "\<not> callback_lock s \<Longrightarrow> callbacks s n = Some c \<Longrightarrow>
   unregister_callback n s = (Returns (), s\<lparr>callbacks := (callbacks s)(n := None)\<rparr>)"
  by (simp add: unregister_callback_def)

lemma get_notification_error_found:
  "sessions fl (get_session_id i fl) = Some s \<Longrightarrow> error_queue s = e # rest \<Longrightarrow>
   \<forall>secs. t = Some secs \<longrightarrow> 0 \<le> secs \<Longrightarrow>
   get_notification_error t i fl =
     (Returns (Some e),
      fl\<lparr>sessions := (sessions fl)(get_session_id i fl \<mapsto> s\<lparr>error_queue := rest\<rparr>)\<rparr>)"
  by (cases t) (auto simp add: get_notification_error_def get_queued_error_def Queue_get_def)

lemma get_notification_error_empty:
  "sessions fl (get_session_id i fl) = Some s \<Longrightarrow> error_queue s = [] \<Longrightarrow> 0 \<le> secs \<Longrightarrow>
   get_notification_error (Some secs) i fl = (Returns None, fl)"
  by (simp add: get_notification_error_def get_queued_error_def Queue_get_def)

lemma get_notification_error_missing:
  "sessions fl (get_session_id i fl) = None \<Longrightarrow> get_notification_error t i fl = (Returns None, fl)"
  by (simp add: get_notification_error_def)

text \<open>
  C10. The session argument of an operation is resolved by \<open>sid if sid else current\<close>: the
  identifier 0, the only falsy integer and the default, selects the current session and any
  other identifier selects itself. Registering, unregistering, processing one notification
  and fetching a queued error act on the session stored under the resolved identifier and
  on no other: they are the session's own operation on it, a registration adds the
  callback to it, an unregistration removes the callback from it, a fetch takes the oldest
  error from its queue; when no session is stored there, the first three raise \<open>KeyError\<close>
  and the fetch returns \<open>None\<close>. The wait call sends the resolved identifier to the backend.
  Hence these calls with identifier 0 are the same calls as with the current identifier;
  and while the current session is not 0, no identifier resolves to 0, so no such call
  touches the session stored under 0.
\<close>

theorem session_id_resolution:
  "get_session_id 0 fl = current_session fl
   \<and> (i \<noteq> 0 \<longrightarrow> get_session_id i fl = i)
   \<and> Flow_register_callback n cb 0 fl = Flow_register_callback n cb (current_session fl) fl
   \<and> Flow_unregister_callback n 0 fl = Flow_unregister_callback n (current_session fl) fl
   \<and> process_one_notification str t 0 fl = process_one_notification str t (current_session fl) fl
   \<and> get_notification_error t 0 fl = get_notification_error t (current_session fl) fl
   \<and> wait_for_notification 0 t fl post = wait_for_notification (current_session fl) t fl post
   \<and> (current_session fl \<noteq> 0 \<longrightarrow>
        get_session_id i fl \<noteq> 0
        \<and> sessions (snd (Flow_register_callback n cb i fl)) 0 = sessions fl 0
        \<and> sessions (snd (Flow_unregister_callback n i fl)) 0 = sessions fl 0
        \<and> sessions (snd (process_one_notification str t i fl)) 0 = sessions fl 0
        \<and> sessions (snd (get_notification_error t i fl)) 0 = sessions fl 0)
   \<and> (\<forall>s. sessions fl (get_session_id i fl) = Some s \<longrightarrow>
        Flow_register_callback n cb i fl =
          (fst (register_callback n cb s),
           fl\<lparr>sessions := (sessions fl)(get_session_id i fl \<mapsto> snd (register_callback n cb s))\<rparr>)
        \<and> Flow_unregister_callback n i fl =
          (fst (unregister_callback n s),
           fl\<lparr>sessions := (sessions fl)(get_session_id i fl \<mapsto> snd (unregister_callback n s))\<rparr>)
        \<and> process_one_notification str t i fl =
          (fst (consume_notification str t s),
           fl\<lparr>sessions := (sessions fl)(get_session_id i fl \<mapsto>
             snd (consume_notification str t s))\<rparr>)
        \<and> (\<not> callback_lock s \<longrightarrow>
             Flow_register_callback n cb i fl =
               (Returns (),
                fl\<lparr>sessions := (sessions fl)(get_session_id i fl \<mapsto>
                  s\<lparr>callbacks := (callbacks s)(n \<mapsto> cb)\<rparr>)\<rparr>))
        \<and> (\<not> callback_lock s \<and> callbacks s n \<noteq> None \<longrightarrow>
             Flow_unregister_callback n i fl =
               (Returns (),
                fl\<lparr>sessions := (sessions fl)(get_session_id i fl \<mapsto>
                  s\<lparr>callbacks := (callbacks s)(n := None)\<rparr>)\<rparr>))
        \<and> (\<forall>e rest. error_queue s = e # rest \<and> (\<forall>secs. t = Some secs \<longrightarrow> 0 \<le> secs) \<longrightarrow>
             get_notification_error t i fl =
               (Returns (Some e),
                fl\<lparr>sessions := (sessions fl)(get_session_id i fl \<mapsto>
                  s\<lparr>error_queue := rest\<rparr>)\<rparr>)))
   \<and> (sessions fl (get_session_id i fl) = None \<longrightarrow>
        Flow_register_callback n cb i fl = (Raises (KeyError (JNum (get_session_id i fl))), fl)
        \<and> Flow_unregister_callback n i fl = (Raises (KeyError (JNum (get_session_id i fl))), fl)
        \<and> process_one_notification str t i fl =
            (Raises (KeyError (JNum (get_session_id i fl))), fl)
        \<and> get_notification_error t i fl = (Returns None, fl))
   \<and> wait_for_notification i t fl post =
        http_outcome (post \<lparr> req_method = ''WaitForNotification'',
          req_params = [(''SessionID'', JNum (get_session_id i fl))],
          req_token = token fl, req_port = port fl, req_timeout = py_or t None \<rparr>)"
proof -
  have old: "get_session_id 0 fl = current_session fl
   \<and> (i \<noteq> 0 \<longrightarrow> get_session_id i fl = i)
   \<and> Flow_register_callback n cb 0 fl = Flow_register_callback n cb (current_session fl) fl
   \<and> Flow_unregister_callback n 0 fl = Flow_unregister_callback n (current_session fl) fl
   \<and> process_one_notification str t 0 fl = process_one_notification str t (current_session fl) fl
   \<and> get_notification_error t 0 fl = get_notification_error t (current_session fl) fl
   \<and> wait_for_notification 0 t fl post = wait_for_notification (current_session fl) t fl post
   \<and> (current_session fl \<noteq> 0 \<longrightarrow>
        get_session_id i fl \<noteq> 0
        \<and> sessions (snd (Flow_register_callback n cb i fl)) 0 = sessions fl 0
        \<and> sessions (snd (Flow_unregister_callback n i fl)) 0 = sessions fl 0
        \<and> sessions (snd (process_one_notification str t i fl)) 0 = sessions fl 0
        \<and> sessions (snd (get_notification_error t i fl)) 0 = sessions fl 0)"
    by (simp add: get_session_id_zero get_session_id_current get_session_id_nonzero
        on_session_other get_notification_error_other
        Flow_register_callback_def Flow_unregister_callback_def process_one_notification_def
        wait_for_notification_def)
      (simp add: get_session_id_def get_notification_error_def)
  have found: "Flow_register_callback n cb i fl =
          (fst (register_callback n cb s),
           fl\<lparr>sessions := (sessions fl)(get_session_id i fl \<mapsto> snd (register_callback n cb s))\<rparr>)
        \<and> Flow_unregister_callback n i fl =
          (fst (unregister_callback n s),
           fl\<lparr>sessions := (sessions fl)(get_session_id i fl \<mapsto> snd (unregister_callback n s))\<rparr>)
        \<and> process_one_notification str t i fl =
          (fst (consume_notification str t s),
           fl\<lparr>sessions := (sessions fl)(get_session_id i fl \<mapsto>
             snd (consume_notification str t s))\<rparr>)
        \<and> (\<not> callback_lock s \<longrightarrow>
             Flow_register_callback n cb i fl =
               (Returns (),
                fl\<lparr>sessions := (sessions fl)(get_session_id i fl \<mapsto>
                  s\<lparr>callbacks := (callbacks s)(n \<mapsto> cb)\<rparr>)\<rparr>))
        \<and> (\<not> callback_lock s \<and> callbacks s n \<noteq> None \<longrightarrow>
             Flow_unregister_callback n i fl =
               (Returns (),
                fl\<lparr>sessions := (sessions fl)(get_session_id i fl \<mapsto>
                  s\<lparr>callbacks := (callbacks s)(n := None)\<rparr>)\<rparr>))
        \<and> (\<forall>e rest. error_queue s = e # rest \<and> (\<forall>secs. t = Some secs \<longrightarrow> 0 \<le> secs) \<longrightarrow>
             get_notification_error t i fl =
               (Returns (Some e),
                fl\<lparr>sessions := (sessions fl)(get_session_id i fl \<mapsto>
                  s\<lparr>error_queue := rest\<rparr>)\<rparr>))"
    if s: "sessions fl (get_session_id i fl) = Some s" for s
  proof -
    have r: "Flow_register_callback n cb i fl =
          (fst (register_callback n cb s),
           fl\<lparr>sessions := (sessions fl)(get_session_id i fl \<mapsto> snd (register_callback n cb s))\<rparr>)"
      by (simp add: Flow_register_callback_def on_session_found [OF s])
    have u: "Flow_unregister_callback n i fl =
          (fst (unregister_callback n s),
           fl\<lparr>sessions := (sessions fl)(get_session_id i fl \<mapsto> snd (unregister_callback n s))\<rparr>)"
      by (simp add: Flow_unregister_callback_def on_session_found [OF s])
    have p: "process_one_notification str t i fl =
          (fst (consume_notification str t s),
           fl\<lparr>sessions := (sessions fl)(get_session_id i fl \<mapsto>
             snd (consume_notification str t s))\<rparr>)"
      by (rule process_one_notification_found [OF s])
    have r2: "Flow_register_callback n cb i fl =
               (Returns (),
                fl\<lparr>sessions := (sessions fl)(get_session_id i fl \<mapsto>
                  s\<lparr>callbacks := (callbacks s)(n \<mapsto> cb)\<rparr>)\<rparr>)"
      if "\<not> callback_lock s"
      by (simp add: r register_callback_free [OF that])
    have u2: "Flow_unregister_callback n i fl =
               (Returns (),
                fl\<lparr>sessions := (sessions fl)(get_session_id i fl \<mapsto>
                  s\<lparr>callbacks := (callbacks s)(n := None)\<rparr>)\<rparr>)"
      if h: "\<not> callback_lock s" "callbacks s n \<noteq> None"
    proof -
      obtain c where c: "callbacks s n = Some c" using h(2) by auto
      show ?thesis by (simp add: u unregister_callback_free [OF h(1) c])
    qed
    have g: "get_notification_error t i fl =
               (Returns (Some e),
                fl\<lparr>sessions := (sessions fl)(get_session_id i fl \<mapsto>
                  s\<lparr>error_queue := rest\<rparr>)\<rparr>)"
      if "error_queue s = e # rest" "\<forall>secs. t = Some secs \<longrightarrow> 0 \<le> secs" for e rest
      using get_notification_error_found [OF s that] .
    show ?thesis using r u p r2 u2 g by blast
  qed
  have missing: "Flow_register_callback n cb i fl = (Raises (KeyError (JNum (get_session_id i fl))), fl)
        \<and> Flow_unregister_callback n i fl = (Raises (KeyError (JNum (get_session_id i fl))), fl)
        \<and> process_one_notification str t i fl =
            (Raises (KeyError (JNum (get_session_id i fl))), fl)
        \<and> get_notification_error t i fl = (Returns None, fl)"
    if "sessions fl (get_session_id i fl) = None"
    using that
    by (simp add: Flow_register_callback_def Flow_unregister_callback_def
        process_one_notification_def on_session_missing get_notification_error_missing)
  have wait: "wait_for_notification i t fl post =
        http_outcome (post \<lparr> req_method = ''WaitForNotification'',
          req_params = [(''SessionID'', JNum (get_session_id i fl))],
          req_token = token fl, req_port = port fl, req_timeout = py_or t None \<rparr>)"
    by (simp add: wait_for_notification_def run_def build_request_def)
  show ?thesis using old found missing wait by blast
qed

lemma sample_sessions:
  "sessions two_sessions (get_session_id 3 two_sessions) = None"
  "sessions errored_client (get_session_id 0 errored_client) =
     Some ((Session_init 7 [])\<lparr>error_queue := [''connection reset'']\<rparr>)"
  by (simp_all add: get_session_id_def two_sessions_def errored_client_def)

theorem session_id_resolution_witness:
  "current_session two_sessions \<noteq> 0
   \<and> sessions two_sessions 0 \<noteq> None
   \<and> get_session_id 0 two_sessions = 7
   \<and> get_session_id 7 two_sessions = 7
   \<and> get_session_id 0 two_sessions \<noteq> 0
   \<and> sessions (snd (Flow_register_callback ''message'' record_data 0 two_sessions)) 0
       = sessions two_sessions 0
   \<and> map_option (\<lambda>s. dom (callbacks s))
        (sessions (snd (Flow_register_callback ''message'' record_data 0 two_sessions)) 7)
       = Some {''message''}
   \<and> map_option (\<lambda>s. dom (callbacks s))
        (sessions (snd (Flow_register_callback ''message'' record_data 0 two_sessions)) 0)
       = Some {}
   \<and> fst (Flow_register_callback ''message'' record_data 3 two_sessions)
       = Raises (KeyError (JNum 3))
   \<and> map_option (\<lambda>s. dom (callbacks s))
        (sessions (snd (Flow_unregister_callback ''message'' 0 raising_client)) 7)
       = Some {''org''}
   \<and> fst (get_notification_error (Some (1 / 20)) 0 errored_client) = Returns (Some ''connection reset'')
   \<and> map_option error_queue
        (sessions (snd (get_notification_error (Some (1 / 20)) 0 errored_client)) 7) = Some []"
proof -
  let ?str = "\<lambda>e :: exn. ''error''"
  let ?post = "\<lambda>r :: request. BadBody"
  have k: "get_session_id 0 two_sessions = 7" "get_session_id 3 two_sessions = 3"
    "get_session_id 0 raising_client = 7" "get_session_id 0 errored_client = 7"
    "get_session_id 7 two_sessions = 7"
    by (simp_all add: get_session_id_def two_sessions_def raising_client_def errored_client_def)
  have s: "sessions two_sessions 0 = Some (Session_init 0 [])" "current_session two_sessions = 7"
    by (simp_all add: two_sessions_def)
  have f1: "\<not> callback_lock (Session_init 7 ([] :: json list))"
    by (simp add: Session_init_def)
  have f2: "\<not> callback_lock raising_session \<and> callbacks raising_session ''message'' \<noteq> None"
    by (simp add: raising_session_def start_notification_loop_def Session_init_def)
  have f3: "error_queue ((Session_init 7 ([] :: json list))\<lparr>error_queue := [''connection reset'']\<rparr>)
       = ''connection reset'' # []
     \<and> (\<forall>secs. Some (1 / 20 :: rat) = Some secs \<longrightarrow> 0 \<le> secs)"
    by simp
  note A = session_id_resolution [of two_sessions 0 "''message''" record_data ?str None ?post]
  note B = session_id_resolution [of two_sessions 3 "''message''" record_data ?str None ?post]
  note C = session_id_resolution [of raising_client 0 "''message''" record_data ?str None ?post]
  note D = session_id_resolution [of errored_client 0 "''message''" record_data ?str
      "Some (1 / 20)" ?post]
  note A9 = A [THEN conjunct2, THEN conjunct2, THEN conjunct2, THEN conjunct2, THEN conjunct2,
      THEN conjunct2, THEN conjunct2, THEN conjunct2, THEN conjunct1, THEN spec, THEN mp,
      OF two_sessions_session]
  note B10 = B [THEN conjunct2, THEN conjunct2, THEN conjunct2, THEN conjunct2, THEN conjunct2,
      THEN conjunct2, THEN conjunct2, THEN conjunct2, THEN conjunct2, THEN conjunct1, THEN mp,
      OF sample_sessions(1)]
  note C9 = C [THEN conjunct2, THEN conjunct2, THEN conjunct2, THEN conjunct2, THEN conjunct2,
      THEN conjunct2, THEN conjunct2, THEN conjunct2, THEN conjunct1, THEN spec, THEN mp,
      OF raising_client_session]
  note D9 = D [THEN conjunct2, THEN conjunct2, THEN conjunct2, THEN conjunct2, THEN conjunct2,
      THEN conjunct2, THEN conjunct2, THEN conjunct2, THEN conjunct1, THEN spec, THEN mp,
      OF sample_sessions(2)]
  note a = A9 [THEN conjunct2, THEN conjunct2, THEN conjunct2, THEN conjunct1, THEN mp, OF f1]
  note b = B10 [THEN conjunct1]
  note c = C9 [THEN conjunct2, THEN conjunct2, THEN conjunct2, THEN conjunct2, THEN conjunct1,
      THEN mp, OF f2]
  note d = D9 [THEN conjunct2, THEN conjunct2, THEN conjunct2, THEN conjunct2, THEN conjunct2,
      THEN spec, THEN spec, THEN mp, OF f3]
  have r: "dom (callbacks raising_session) = {''message'', ''org''}"
    by (auto simp add: raising_session_def)
  have i: "callbacks (Session_init j ([] :: json list)) = Map.empty" for j
    by (simp add: Session_init_def)
  show ?thesis
    unfolding a b c d by (simp add: k s r i)
qed

end
